theory Spec2Isabelle
  imports Main "HOL-Library.AList" "HOL-Library.Multiset" "HOL-Library.Word"
begin

section \<open>JavaScript values and containers\<close>

text \<open>
  Scalar values as they arrive in a parsed JSON payload; a field that is absent reads as
  \<open>undefined\<close>. Numbers are the integers the protocol uses (millisecond timestamps,
  answer indices, identifiers). A string is the list of its code units, each below 256.
\<close>

datatype jsval = JUndefined | JNull | JBool bool | JNum int | JStr string

text \<open>
  The result of an arithmetic operation: an integer, or \<open>NaN\<close> when an operand does not
  convert to a number.
\<close>

datatype jsnum = Num int | NaN

text \<open>Truthiness: \<open>undefined\<close>, \<open>null\<close>, \<open>false\<close>, \<open>0\<close> and the empty string are falsy.\<close>

fun truthyVal :: "jsval \<Rightarrow> bool" where
  "truthyVal JUndefined = False"
| "truthyVal JNull = False"
| "truthyVal (JBool b) = b"
| "truthyVal (JNum n) = (n \<noteq> 0)"
| "truthyVal (JStr s) = (s \<noteq> [])"

text \<open>
  \<open>ToNumber\<close>, which the operator \<open>-\<close> applies to its operands. Of the numeric strings
  the model reads the decimal integers, with an optional sign and white space around them;
  the empty string is \<open>0\<close>; every other string is \<open>NaN\<close> (so are, in this model of integer
  numbers, the literals with a fraction, an exponent or a radix prefix).
\<close>

definition isWhiteSpace :: "char \<Rightarrow> bool" where
  "isWhiteSpace c =
     (c \<in> set [CHR 0x09, CHR 0x0A, CHR 0x0B, CHR 0x0C, CHR 0x0D, CHR 0x20, CHR 0xA0])"

definition isDigit :: "char \<Rightarrow> bool" where
  "isDigit c = (48 \<le> (of_char c :: nat) \<and> (of_char c :: nat) \<le> 57)"

definition digitsValue :: "string \<Rightarrow> int" where
  "digitsValue ds = foldl (\<lambda>acc c. 10 * acc + (int (of_char c) - 48)) 0 ds"

definition trim :: "string \<Rightarrow> string" where
  "trim s = rev (dropWhile isWhiteSpace (rev (dropWhile isWhiteSpace s)))"

definition StringToNumber :: "string \<Rightarrow> jsnum" where
  "StringToNumber s =
     (case trim s of
        [] \<Rightarrow> Num 0
      | c # cs \<Rightarrow>
          if (c = CHR ''+'' \<or> c = CHR ''-'') \<and> cs \<noteq> [] \<and> list_all isDigit cs
          then Num (if c = CHR ''-'' then - digitsValue cs else digitsValue cs)
          else if list_all isDigit (c # cs) then Num (digitsValue (c # cs))
          else NaN)"

fun ToNumber :: "jsval \<Rightarrow> jsnum" where
  "ToNumber JUndefined = NaN"
| "ToNumber JNull = Num 0"
| "ToNumber (JBool b) = Num (if b then 1 else 0)"
| "ToNumber (JNum n) = Num n"
| "ToNumber (JStr s) = StringToNumber s"

text \<open>The operators \<open>-\<close> and \<open>+\<close> on numbers, \<open>NaN\<close> absorbing, and the comparisons, false on \<open>NaN\<close>.\<close>

fun num_sub :: "jsnum \<Rightarrow> jsnum \<Rightarrow> jsnum" where
  "num_sub (Num a) (Num b) = Num (a - b)"
| "num_sub _ _ = NaN"

fun num_add :: "jsnum \<Rightarrow> jsnum \<Rightarrow> jsnum" where
  "num_add (Num a) (Num b) = Num (a + b)"
| "num_add _ _ = NaN"

fun num_lt :: "jsnum \<Rightarrow> int \<Rightarrow> bool" where
  "num_lt (Num a) b = (a < b)"
| "num_lt NaN b = False"

fun num_gt :: "jsnum \<Rightarrow> int \<Rightarrow> bool" where
  "num_gt (Num a) b = (a > b)"
| "num_gt NaN b = False"



text \<open>Every \<open>throw\<close> of the modelled code, and the runtime errors it can hit.\<close>

datatype error =
    GameNotFound string
  | GameAlreadyStarted
  | PlayerNotFound
  | QuestionNotFound
  | TypeError
  | RangeError

text \<open>
  A JavaScript \<open>Map\<close> keeps its keys in insertion order and \<open>set\<close> on a present key
  overwrites in place: an association list with \<open>AList.update\<close>.
\<close>

type_synonym ('k, 'v) jsmap = "('k \<times> 'v) list"

definition Map_get :: "('k, 'v) jsmap \<Rightarrow> 'k \<Rightarrow> 'v option" where
  "Map_get m k = map_of m k"

definition Map_has :: "('k, 'v) jsmap \<Rightarrow> 'k \<Rightarrow> bool" where
  "Map_has m k = (map_of m k \<noteq> None)"

definition Map_set :: "('k, 'v) jsmap \<Rightarrow> 'k \<Rightarrow> 'v \<Rightarrow> ('k, 'v) jsmap" where
  "Map_set m k v = AList.update k v m"

definition Map_delete :: "('k, 'v) jsmap \<Rightarrow> 'k \<Rightarrow> ('k, 'v) jsmap" where
  "Map_delete m k = AList.delete k m"

definition Map_size :: "('k, 'v) jsmap \<Rightarrow> nat" where
  "Map_size m = length m"

text \<open>A JavaScript \<open>Set\<close>: the members in insertion order, each once.\<close>

type_synonym 'a jsset = "'a list"

definition Set_has :: "'a jsset \<Rightarrow> 'a \<Rightarrow> bool" where
  "Set_has s x = (x \<in> set s)"

definition Set_add :: "'a jsset \<Rightarrow> 'a \<Rightarrow> 'a jsset" where
  "Set_add s x = (if x \<in> set s then s else s @ [x])"

definition Set_delete :: "'a jsset \<Rightarrow> 'a \<Rightarrow> 'a jsset" where
  "Set_delete s x = removeAll x s"

section \<open>Array.prototype.sort\<close>

text \<open>
  \<open>sort\<close> calls the comparison function through \<open>SortCompare\<close>, which reads a \<open>NaN\<close>
  result as \<open>+0\<close>: the two elements then count as equal. With a comparison function that is
  consistent the result is the stable sorted order, whatever the engine. With one that is
  not (it is not as soon as it returns \<open>NaN\<close>) the order is left to the engine; the model
  follows V8, the engine of Node, on an array of fewer than 64 elements: \<open>CountAndMakeRun\<close>
  takes the longest ascending or strictly descending run at the start, reversing a
  descending one, and \<open>BinaryInsertionSort\<close> inserts each later element at the place a
  binary search finds in what is sorted so far. (A longer array is cut into several such
  runs that are merged.)
\<close>

definition SortCompare :: "('a \<Rightarrow> 'a \<Rightarrow> jsnum) \<Rightarrow> 'a \<Rightarrow> 'a \<Rightarrow> int" where
  "SortCompare comparefn x y = (case comparefn x y of NaN \<Rightarrow> 0 | Num v \<Rightarrow> v)"

fun runLength :: "('a \<Rightarrow> 'a \<Rightarrow> int) \<Rightarrow> bool \<Rightarrow> 'a \<Rightarrow> 'a list \<Rightarrow> nat" where
  "runLength ord isDescending previousElement [] = 0"
| "runLength ord isDescending previousElement (currentElement # rest) =
     (let order = ord currentElement previousElement
      in if (if isDescending then order \<ge> 0 else order < 0) then 0
         else Suc (runLength ord isDescending currentElement rest))"

definition CountAndMakeRun :: "('a \<Rightarrow> 'a \<Rightarrow> int) \<Rightarrow> 'a list \<Rightarrow> 'a list \<times> 'a list" where
  "CountAndMakeRun ord xs =
     (case xs of
        elementHigh # elementLow # rest \<Rightarrow>
          let isDescending = (ord elementLow elementHigh < 0);
              n = 2 + runLength ord isDescending elementLow rest;
              run = take n xs
          in (if isDescending then rev run else run, drop n xs)
      | _ \<Rightarrow> (xs, []))"

text \<open>The binary search of \<open>BinaryInsertionSort\<close> for the place of \<open>pivot\<close> in \<open>work\<close>.\<close>

function insertionPoint :: "('a \<Rightarrow> 'a \<Rightarrow> int) \<Rightarrow> 'a \<Rightarrow> 'a list \<Rightarrow> nat \<Rightarrow> nat \<Rightarrow> nat" where
  "insertionPoint ord pivot work left right =
     (if left < right
      then (let mid = left + (right - left) div 2
            in if ord pivot (work ! mid) < 0
               then insertionPoint ord pivot work left mid
               else insertionPoint ord pivot work (mid + 1) right)
      else left)"
  by pat_completeness auto
termination
  by (relation "measure (\<lambda>(ord, pivot, work, left, right). right - left)") auto

declare insertionPoint.simps [simp del]

definition insertPivot :: "('a \<Rightarrow> 'a \<Rightarrow> int) \<Rightarrow> 'a list \<Rightarrow> 'a \<Rightarrow> 'a list" where
  "insertPivot ord work pivot =
     (let left = insertionPoint ord pivot work 0 (length work)
      in take left work @ pivot # drop left work)"

definition BinaryInsertionSort :: "('a \<Rightarrow> 'a \<Rightarrow> int) \<Rightarrow> 'a list \<Rightarrow> 'a list \<Rightarrow> 'a list" where
  "BinaryInsertionSort ord run rest = foldl (insertPivot ord) run rest"

definition Array_sort :: "('a \<Rightarrow> 'a \<Rightarrow> jsnum) \<Rightarrow> 'a list \<Rightarrow> 'a list" where
  "Array_sort comparefn xs =
     (if length xs < 2 then xs
      else (case CountAndMakeRun (SortCompare comparefn) xs of
              (run, rest) \<Rightarrow> BinaryInsertionSort (SortCompare comparefn) run rest))"

section \<open>Data model of the game service (game.service.js)\<close>

text \<open>
  \<open>Date.now()\<close>: the \<open>n\<close>-th call made since the start returns \<open>clk n\<close>. A function that
  reads the clock takes \<open>clk\<close> and the number of calls made so far, and returns the number
  of calls made when it ends.
\<close>

type_synonym clock = "nat \<Rightarrow> int"

text \<open>
  The \<open>timestamps\<close> object a buzzer attaches to an answer or a buzz, each field with
  whatever value the message carried. A message without \<open>timestamps\<close> (or with a falsy one)
  is \<open>None\<close>; a field the object does not have, and every field of a truthy value that is
  not an object, reads as \<open>JUndefined\<close>.
\<close>

record clientTimestamps =
  timestamp_local_action :: jsval
  timestamp_synced_action :: jsval
  calibrated_latency :: jsval

text \<open>
  \<open>fastestResponseTime\<close> starts at \<open>Infinity\<close> and is replaced only by a response time
  that compares less, which \<open>NaN\<close> never does: it is \<open>Infinity\<close> or an integer. Likewise
  \<open>slowestResponseTime\<close> is an integer. \<open>totalResponseTime\<close> is a sum and can be \<open>NaN\<close>.
\<close>

datatype ext_time = Finite int | Infinity

fun lt_ext :: "int \<Rightarrow> ext_time \<Rightarrow> bool" where
  "lt_ext r Infinity = True"
| "lt_ext r (Finite f) = (r < f)"

record player =
  p_buzzerID :: jsval
  p_name :: string
  score :: int
  correctAnswers :: int
  totalAnswers :: int
  totalResponseTime :: jsnum
  fastestResponseTime :: ext_time
  slowestResponseTime :: int

text \<open>An entry of \<open>currentQuestionAnswers\<close>.\<close>

record answer_entry =
  a_answer :: jsval
  a_isCorrect :: bool
  a_points :: int
  a_responseTime :: jsnum
  a_timestamp :: int

text \<open>An entry of \<open>currentQuestionBuzzes\<close> (the pending-buzz list).\<close>

record buzz =
  buzzerID :: jsval
  responseTime :: jsnum
  timestamps :: "clientTimestamps option"
  receivedAt :: int
  processed :: bool

datatype game_status = Created | Started | Paused | Ended

record settings =
  mcqDuration :: int
  buzzerDuration :: int
  showCorrectAnswer :: bool
  showIntermediateRanking :: bool

text \<open>
  The in-memory state of one game. A buzzer is named by the \<open>buzzerID\<close> value of its
  registration message, which need not be a string. The five buzz-tracking fields do not
  exist on the object \<open>createGame\<close> builds: \<open>currentQuestionBuzzes\<close> and
  \<open>currentQuestionExcluded\<close> are \<open>None\<close> while undefined, \<open>currentQuestionWinner\<close> is
  \<open>JUndefined\<close>, an undefined \<open>buzzerLocked\<close> is \<open>False\<close> and an undefined
  \<open>buzzEvaluationTimer\<close> is \<open>None\<close> like \<open>null\<close> (the code only tests these two for
  truthiness). An armed evaluation timer carries the question identifier its callback was
  created with.
\<close>

record game =
  g_id :: string
  g_name :: string
  status :: game_status
  g_settings :: settings
  questionIds :: "nat list"
  currentQuestionIndex :: int
  questionStartTime :: "int option"
  players :: "(jsval, player) jsmap"
  currentQuestionAnswers :: "(jsval, answer_entry) jsmap"
  currentQuestionBuzzes :: "buzz list option"
  currentQuestionExcluded :: "jsval jsset option"
  currentQuestionWinner :: jsval
  buzzerLocked :: bool
  buzzEvaluationTimer :: "nat option"
  startedAt :: "int option"
  endedAt :: "int option"

subsection \<open>The database collaborator\<close>

datatype question_type = MCQ | BUZZER

record question =
  q_id :: nat
  q_text :: string
  q_type :: question_type
  q_answers :: "string option"
  correct_answer :: "int option"
  q_category :: "string option"
  q_points :: "int option"

record jingle =
  j_id :: nat
  j_name :: string
  file_path :: string

record result_row =
  r_game_id :: string
  r_question_id :: nat
  r_buzzer_id :: jsval
  r_answer :: jsval
  r_is_correct :: int
  r_response_time :: jsnum
  r_timestamp_local_action :: jsval
  r_timestamp_synced_action :: jsval
  r_calibrated_latency :: jsval
  r_points :: int

text \<open>
  The tables the modelled code reads and writes. A row of \<open>game_results\<close> is kept with
  the values the code hands to the statement (\<open>r_answer\<close> is the answer itself, which
  the code binds as its JSON text when it is not a number). \<open>insert_ok\<close> stands for the
  store's own checks of these values: an \<open>INSERT INTO game_results\<close> it refuses throws,
  and both callers catch and log that.
\<close>

record database =
  questions :: "nat \<Rightarrow> question option"
  jingles :: "nat \<Rightarrow> jingle option"
  game_results :: "result_row list"
  insert_ok :: "result_row \<Rightarrow> bool"

definition insertResult :: "database \<Rightarrow> result_row \<Rightarrow> database" where
  "insertResult db row =
     (if insert_ok db row then db\<lparr>game_results := game_results db @ [row]\<rparr> else db)"

subsection \<open>Shared fragments\<close>

text \<open>
  Truthiness of \<open>questionStartTime\<close>, which is \<open>null\<close> or a reading of the clock: \<open>null\<close>
  and \<open>0\<close> are falsy.
\<close>

definition truthy :: "int option \<Rightarrow> bool" where
  "truthy v = (case v of None \<Rightarrow> False | Some n \<Rightarrow> n \<noteq> 0)"

text \<open>
  \<open>timestamps && timestamps.timestamp_synced_action\<close>: falsy without \<open>timestamps\<close>, else
  the field.
\<close>

fun syncedAction :: "clientTimestamps option \<Rightarrow> jsval" where
  "syncedAction None = JUndefined"
| "syncedAction (Some ts) = timestamp_synced_action ts"

text \<open>\<open>timestamps ? timestamps.field : null\<close>, the values bound to the \<open>INSERT\<close>.\<close>

fun fieldOrNull :: "(clientTimestamps \<Rightarrow> jsval) \<Rightarrow> clientTimestamps option \<Rightarrow> jsval" where
  "fieldOrNull field None = JNull"
| "fieldOrNull field (Some ts) = field ts"

text \<open>
  The block both \<open>recordAnswer\<close> and \<open>recordBuzz\<close> start from: the synchronised client
  timestamp minus the question start when both are truthy, else a reading of the server
  clock minus the question start when that is truthy, else \<open>0\<close>. The client's value goes
  into the subtraction as it is: one that does not convert to a number gives \<open>NaN\<close>.
\<close>

definition rawResponseTime ::
  "clock \<Rightarrow> nat \<Rightarrow> clientTimestamps option \<Rightarrow> int option \<Rightarrow> jsnum \<times> nat" where
  "rawResponseTime clk n ts start =
     (if truthyVal (syncedAction ts) \<and> truthy start
      then (num_sub (ToNumber (syncedAction ts)) (Num (the start)), n)
      else if truthy start then (Num (clk n - the start), Suc n)
      else (Num 0, n))"

text \<open>\<open>question.points || 10\<close>\<close>

definition pointsOrDefault :: "int option \<Rightarrow> int" where
  "pointsOrDefault p = (case p of None \<Rightarrow> 10 | Some n \<Rightarrow> if n = 0 then 10 else n)"

text \<open>\<open>answer === question.correct_answer\<close>, the stored answer being an integer or NULL.\<close>

definition strictEq :: "jsval \<Rightarrow> int option \<Rightarrow> bool" where
  "strictEq a c = (case c of None \<Rightarrow> a = JNull | Some n \<Rightarrow> a = JNum n)"

text \<open>
  The statistics update that \<open>recordAnswer\<close> and \<open>validateBuzz\<close> both apply. The two
  comparisons are false on a \<open>NaN\<close> response time.
\<close>

definition updatePlayerStats :: "player \<Rightarrow> int \<Rightarrow> bool \<Rightarrow> jsnum \<Rightarrow> player" where
  "updatePlayerStats pl pts ok rt =
     pl\<lparr> score := score pl + pts,
         totalAnswers := totalAnswers pl + 1,
         correctAnswers := (if ok then correctAnswers pl + 1 else correctAnswers pl),
         totalResponseTime := num_add (totalResponseTime pl) rt,
         fastestResponseTime :=
           (case rt of
              Num r \<Rightarrow> if lt_ext r (fastestResponseTime pl) then Finite r
                       else fastestResponseTime pl
            | NaN \<Rightarrow> fastestResponseTime pl),
         slowestResponseTime :=
           (case rt of
              Num r \<Rightarrow> if r > slowestResponseTime pl then r else slowestResponseTime pl
            | NaN \<Rightarrow> slowestResponseTime pl) \<rparr>"

definition updatePlayer :: "game \<Rightarrow> jsval \<Rightarrow> int \<Rightarrow> bool \<Rightarrow> jsnum \<Rightarrow> game" where
  "updatePlayer g bid pts ok rt =
     (case Map_get (players g) bid of
        None \<Rightarrow> g
      | Some pl \<Rightarrow> g\<lparr>players := Map_set (players g) bid (updatePlayerStats pl pts ok rt)\<rparr>)"

section \<open>Answer handling: recordAnswer\<close>

record answer_result =
  res_isCorrect :: bool
  res_points :: int
  res_responseTime :: jsnum
  duplicate :: bool

text \<open>The response time \<open>recordAnswer\<close> stores: lines 187 to 199.\<close>

definition answerResponseTime ::
  "clock \<Rightarrow> nat \<Rightarrow> clientTimestamps option \<Rightarrow> int option \<Rightarrow> jsnum \<times> nat" where
  "answerResponseTime clk n ts start =
     (case rawResponseTime clk n ts start of
        (rt, n1) \<Rightarrow>
          let rt = (if num_lt rt 0 then Num 0 else rt);
              rt = (if num_gt rt 120000 then Num 120000 else rt)
          in (rt, n1))"

text \<open>
  The body of \<open>recordAnswer\<close>, once \<open>getGame\<close> has returned the game object. The duplicate
  check and the question lookup come before any reading of the clock; the entry's
  \<open>timestamp\<close> is a reading of its own, after the one the response time may have taken.
\<close>

definition recordAnswer_game ::
  "clock \<Rightarrow> nat \<Rightarrow> database \<Rightarrow> game \<Rightarrow> string \<Rightarrow> nat \<Rightarrow> jsval \<Rightarrow> jsval
     \<Rightarrow> clientTimestamps option \<Rightarrow> error + (game \<times> database \<times> answer_result \<times> nat)" where
  "recordAnswer_game clk n db g gameId questionId bid answer ts =
     (if Map_has (currentQuestionAnswers g) bid
      then Inr (g, db, \<lparr>res_isCorrect = False, res_points = 0, res_responseTime = Num 0,
                        duplicate = True\<rparr>, n)
      else case questions db questionId of
        None \<Rightarrow> Inl QuestionNotFound
      | Some q \<Rightarrow>
          let ok = (case q_type q of
                      MCQ \<Rightarrow> strictEq answer (correct_answer q)
                    | BUZZER \<Rightarrow> Map_size (currentQuestionAnswers g) = 0);
              pts = (if ok then pointsOrDefault (q_points q) else 0);
              (rt, n1) = answerResponseTime clk n ts (questionStartTime g);
              g1 = g\<lparr>currentQuestionAnswers :=
                      Map_set (currentQuestionAnswers g) bid
                        \<lparr>a_answer = answer, a_isCorrect = ok, a_points = pts,
                         a_responseTime = rt, a_timestamp = clk n1\<rparr>\<rparr>;
              db1 = insertResult db
                      \<lparr>r_game_id = gameId, r_question_id = questionId, r_buzzer_id = bid,
                       r_answer = answer, r_is_correct = (if ok then 1 else 0),
                       r_response_time = rt,
                       r_timestamp_local_action = fieldOrNull timestamp_local_action ts,
                       r_timestamp_synced_action = fieldOrNull timestamp_synced_action ts,
                       r_calibrated_latency = fieldOrNull calibrated_latency ts,
                       r_points = pts\<rparr>;
              g2 = updatePlayer g1 bid pts ok rt
          in Inr (g2, db1, \<lparr>res_isCorrect = ok, res_points = pts, res_responseTime = rt,
                            duplicate = False\<rparr>, Suc n1))"

section \<open>Buzz arbitration: recordBuzz, evaluateBuzzes, validateBuzz, excludePlayer\<close>

text \<open>
  The three reasons of an ignored buzz, in the order of the checks: the strings
  "Joueur exclu pour cette question", "Deja buzze" and "Buzzers verrouilles" of the source
  (there with their accents).
\<close>

datatype ignore_reason = PlayerExcluded | AlreadyBuzzed | BuzzersLocked

text \<open>
  The object \<open>recordBuzz\<close> returns: \<open>{ignored: true, reason}\<close>, or
  \<open>{ignored: false, isWinner, isPending, responseTime, totalBuzzes}\<close>.
\<close>

datatype buzz_result =
    Ignored ignore_reason
  | Recorded (isWinner: bool) (isPending: bool) (buzzResponseTime: jsnum) (totalBuzzes: nat)

fun ignored :: "buzz_result \<Rightarrow> bool" where
  "ignored (Ignored _) = True"
| "ignored (Recorded _ _ _ _) = False"

text \<open>The response time \<open>recordBuzz\<close> stores: lines 421 to 428.\<close>

definition buzzResponseTimeOf ::
  "clock \<Rightarrow> nat \<Rightarrow> clientTimestamps option \<Rightarrow> int option \<Rightarrow> jsnum \<times> nat" where
  "buzzResponseTimeOf clk n ts start =
     (case rawResponseTime clk n ts start of
        (rt, n1) \<Rightarrow> (if num_lt rt 0 then Num 0 else rt, n1))"

text \<open>The lazy initialisation at the top of \<open>recordBuzz\<close>.\<close>

definition initBuzzTracking :: "game \<Rightarrow> game" where
  "initBuzzTracking g =
     (if currentQuestionBuzzes g = None
      then g\<lparr>currentQuestionBuzzes := Some [], currentQuestionExcluded := Some [],
             currentQuestionWinner := JNull, buzzerLocked := False\<rparr>
      else g)"

text \<open>
  The three checks come before any reading of the clock; \<open>receivedAt\<close> is a reading of its
  own, after the one the response time may have taken.
\<close>

definition recordBuzz_game ::
  "clock \<Rightarrow> nat \<Rightarrow> game \<Rightarrow> nat \<Rightarrow> jsval \<Rightarrow> clientTimestamps option
     \<Rightarrow> error + (game \<times> buzz_result \<times> nat)" where
  "recordBuzz_game clk n g questionId bid ts =
     (let g0 = initBuzzTracking g in
      case (currentQuestionExcluded g0, currentQuestionBuzzes g0) of
        (Some excluded, Some buzzes) \<Rightarrow>
          if Set_has excluded bid then Inr (g0, Ignored PlayerExcluded, n)
          else if find (\<lambda>b. buzzerID b = bid \<and> \<not> processed b) buzzes \<noteq> None
          then Inr (g0, Ignored AlreadyBuzzed, n)
          else if buzzerLocked g0 then Inr (g0, Ignored BuzzersLocked, n)
          else
            let (rt, n1) = buzzResponseTimeOf clk n ts (questionStartTime g0);
                buzzEntry = \<lparr>buzzerID = bid, responseTime = rt, timestamps = ts,
                             receivedAt = clk n1, processed = False\<rparr>;
                buzzes1 = buzzes @ [buzzEntry];
                g1 = g0\<lparr>currentQuestionBuzzes := Some buzzes1\<rparr>;
                g2 = (if buzzEvaluationTimer g1 = None
                      then g1\<lparr>buzzEvaluationTimer := Some questionId\<rparr> else g1)
            in Inr (g2, Recorded False True rt (length buzzes1), Suc n1)
      | _ \<Rightarrow> Inl TypeError)"

text \<open>
  \<open>evaluateBuzzes\<close> filters the pending-buzz list into a new array of the same entry
  objects, sorts that array and sets \<open>processed\<close> on its members, which changes the
  entries of the game's own list. The model names an entry by its index in
  \<open>currentQuestionBuzzes\<close>: \<open>pendingBuzzes\<close> is the list of the indices the filter keeps,
  and \<open>sortPending\<close> sorts them with the comparison function
  \<open>(a, b) => a.responseTime - b.responseTime\<close>.
\<close>

definition eligible :: "jsval jsset \<Rightarrow> buzz \<Rightarrow> bool" where
  "eligible excluded b = (\<not> processed b \<and> \<not> Set_has excluded (buzzerID b))"

definition pendingBuzzes :: "jsval jsset \<Rightarrow> buzz list \<Rightarrow> nat list" where
  "pendingBuzzes excluded buzzes =
     filter (\<lambda>i. eligible excluded (buzzes ! i)) [0..<length buzzes]"

definition sortPending :: "buzz list \<Rightarrow> nat list \<Rightarrow> nat list" where
  "sortPending buzzes pending =
     Array_sort (\<lambda>a b. num_sub (responseTime (buzzes ! a)) (responseTime (buzzes ! b))) pending"

definition setProcessed :: "nat \<Rightarrow> buzz list \<Rightarrow> buzz list" where
  "setProcessed i buzzes = buzzes[i := (buzzes ! i)\<lparr>processed := True\<rparr>]"

text \<open>
  The result is the game and, when a winner was elected, the winner object as the
  \<open>onBuzzWinner\<close> callback would receive it. With \<open>currentQuestionExcluded\<close> undefined the
  filter callback fails at the first unprocessed entry it meets.
\<close>

definition evaluateBuzzes_game :: "game \<Rightarrow> error + (game \<times> buzz option)" where
  "evaluateBuzzes_game g =
     (case currentQuestionBuzzes g of
        None \<Rightarrow> Inr (g, None)
      | Some buzzes \<Rightarrow>
          if buzzerLocked g then Inr (g, None)
          else (case currentQuestionExcluded g of
            None \<Rightarrow> if \<exists>b \<in> set buzzes. \<not> processed b then Inl TypeError else Inr (g, None)
          | Some excluded \<Rightarrow>
              (case sortPending buzzes (pendingBuzzes excluded buzzes) of
                 [] \<Rightarrow> Inr (g, None)
               | w # others \<Rightarrow>
                   let buzzes1 = setProcessed w buzzes;
                       buzzes2 = fold setProcessed others buzzes1;
                       g1 = g\<lparr>currentQuestionBuzzes := Some buzzes2,
                              currentQuestionWinner := buzzerID (buzzes1 ! w),
                              buzzerLocked := True\<rparr>
                   in Inr (g1, Some (buzzes2 ! w)))))"

text \<open>\<open>validateBuzz\<close> after \<open>getGame\<close>; it has no \<open>throw\<close> of its own and reads no clock.\<close>

definition validateBuzz_game ::
  "database \<Rightarrow> game \<Rightarrow> string \<Rightarrow> nat \<Rightarrow> jsval \<Rightarrow> bool \<Rightarrow> game \<times> database \<times> answer_result" where
  "validateBuzz_game db g gameId questionId bid ok =
     (let pts = (if ok then (case questions db questionId of
                              Some q \<Rightarrow> pointsOrDefault (q_points q) | None \<Rightarrow> 10)
                 else 0);
          buzzEntry = (case currentQuestionBuzzes g of
                         Some buzzes \<Rightarrow> find (\<lambda>b. buzzerID b = bid) buzzes
                       | None \<Rightarrow> None);
          rt = (case buzzEntry of Some b \<Rightarrow> responseTime b | None \<Rightarrow> Num 0);
          bts = (case buzzEntry of Some b \<Rightarrow> timestamps b | None \<Rightarrow> None);
          db1 = insertResult db
                  \<lparr>r_game_id = gameId, r_question_id = questionId, r_buzzer_id = bid,
                   r_answer = JNum 0, r_is_correct = (if ok then 1 else 0),
                   r_response_time = rt,
                   r_timestamp_local_action = fieldOrNull timestamp_local_action bts,
                   r_timestamp_synced_action = fieldOrNull timestamp_synced_action bts,
                   r_calibrated_latency = fieldOrNull calibrated_latency bts,
                   r_points = pts\<rparr>;
          g1 = updatePlayer g bid pts ok rt
      in (g1, db1, \<lparr>res_isCorrect = ok, res_points = pts, res_responseTime = rt,
                    duplicate = False\<rparr>))"

definition excludePlayer_game :: "game \<Rightarrow> jsval \<Rightarrow> game" where
  "excludePlayer_game g bid =
     (let excluded = (case currentQuestionExcluded g of None \<Rightarrow> [] | Some s \<Rightarrow> s)
      in g\<lparr>currentQuestionExcluded := Some (Set_add excluded bid),
           buzzerLocked := False,
           currentQuestionWinner := JNull\<rparr>)"

definition getExcludedPlayers_game :: "game \<Rightarrow> jsval list" where
  "getExcludedPlayers_game g = (case currentQuestionExcluded g of Some s \<Rightarrow> s | None \<Rightarrow> [])"

section \<open>Game lifecycle\<close>

text \<open>
  The \<open>gameState\<close> object \<open>createGame\<close> stores in \<open>activeGames\<close>, the settings already
  merged with their defaults.
\<close>

definition createGame_gameState :: "string \<Rightarrow> string \<Rightarrow> nat list \<Rightarrow> settings \<Rightarrow> game" where
  "createGame_gameState gameId name qids st =
     \<lparr>g_id = gameId, g_name = name, status = Created, g_settings = st, questionIds = qids,
      currentQuestionIndex = - 1, questionStartTime = None, players = [],
      currentQuestionAnswers = [], currentQuestionBuzzes = None,
      currentQuestionExcluded = None, currentQuestionWinner = JUndefined,
      buzzerLocked = False, buzzEvaluationTimer = None, startedAt = None, endedAt = None\<rparr>"

definition startGame_game :: "clock \<Rightarrow> nat \<Rightarrow> game \<Rightarrow> error + (game \<times> nat)" where
  "startGame_game clk n g =
     (if status g \<noteq> Created then Inl GameAlreadyStarted
      else Inr (g\<lparr>status := Started, currentQuestionIndex := 0, startedAt := Some (clk n)\<rparr>,
                Suc n))"

definition newPlayer :: "jsval \<Rightarrow> string \<Rightarrow> player" where
  "newPlayer bid playerName =
     \<lparr>p_buzzerID = bid, p_name = playerName, score = 0, correctAnswers = 0,
      totalAnswers = 0, totalResponseTime = Num 0, fastestResponseTime = Infinity,
      slowestResponseTime = 0\<rparr>"

definition registerPlayer_game :: "game \<Rightarrow> jsval \<Rightarrow> string \<Rightarrow> game" where
  "registerPlayer_game g bid playerName =
     g\<lparr>players := Map_set (players g) bid (newPlayer bid playerName)\<rparr>"

definition renamePlayer_game :: "game \<Rightarrow> jsval \<Rightarrow> string \<Rightarrow> error + game" where
  "renamePlayer_game g bid newName =
     (case Map_get (players g) bid of
        None \<Rightarrow> Inl PlayerNotFound
      | Some pl \<Rightarrow> Inr (g\<lparr>players := Map_set (players g) bid (pl\<lparr>p_name := newName\<rparr>)\<rparr>))"

text \<open>
  \<open>getCurrentQuestion\<close> resets the per-question state whenever the index is in range,
  also when the store has no row for the question.
\<close>

definition getCurrentQuestion_game ::
  "clock \<Rightarrow> nat \<Rightarrow> database \<Rightarrow> game \<Rightarrow> game \<times> question option \<times> nat" where
  "getCurrentQuestion_game clk n db g =
     (if currentQuestionIndex g < 0 \<or> currentQuestionIndex g \<ge> int (length (questionIds g))
      then (g, None, n)
      else
        let questionId = questionIds g ! nat (currentQuestionIndex g)
        in (g\<lparr>questionStartTime := Some (clk n), currentQuestionAnswers := [],
              currentQuestionBuzzes := Some [], currentQuestionExcluded := Some [],
              currentQuestionWinner := JNull, buzzerLocked := False,
              buzzEvaluationTimer := None\<rparr>,
            questions db questionId, Suc n))"

definition endGame_game :: "clock \<Rightarrow> nat \<Rightarrow> game \<Rightarrow> game \<times> nat" where
  "endGame_game clk n g = (g\<lparr>status := Ended, endedAt := Some (clk n)\<rparr>, Suc n)"

definition nextQuestion_game :: "clock \<Rightarrow> nat \<Rightarrow> game \<Rightarrow> game \<times> nat" where
  "nextQuestion_game clk n g =
     (let g1 = g\<lparr>currentQuestionIndex := currentQuestionIndex g + 1,
                 questionStartTime := None, currentQuestionAnswers := []\<rparr>
      in if currentQuestionIndex g1 \<ge> int (length (questionIds g1)) then endGame_game clk n g1
         else (g1, n))"

text \<open>
  The callback \<open>recordBuzz\<close> hands to \<open>setTimeout\<close>: it runs \<open>evaluateBuzzes\<close>, then
  clears the timer handle on the game object.
\<close>

definition buzzEvaluationTimeout_game :: "game \<Rightarrow> error + (game \<times> buzz option)" where
  "buzzEvaluationTimeout_game g =
     (case evaluateBuzzes_game g of
        Inl e \<Rightarrow> Inl e
      | Inr (g1, w) \<Rightarrow> Inr (g1\<lparr>buzzEvaluationTimer := None\<rparr>, w))"

section \<open>The service: games by identifier\<close>

text \<open>
  \<open>activeGames\<close> and whether the networking layer has installed \<open>onBuzzWinner\<close>. Every
  method fetches the game object with \<open>getGame\<close> and mutates it in place; the model writes
  the new game back under the same key.
\<close>

record service =
  activeGames :: "(string, game) jsmap"
  onBuzzWinner :: bool

definition getGame :: "service \<Rightarrow> string \<Rightarrow> error + game" where
  "getGame svc gameId =
     (case Map_get (activeGames svc) gameId of
        None \<Rightarrow> Inl (GameNotFound gameId)
      | Some g \<Rightarrow> Inr g)"

definition putGame :: "service \<Rightarrow> string \<Rightarrow> game \<Rightarrow> service" where
  "putGame svc gameId g = svc\<lparr>activeGames := Map_set (activeGames svc) gameId g\<rparr>"

definition recordAnswer ::
  "clock \<Rightarrow> nat \<Rightarrow> service \<Rightarrow> database \<Rightarrow> string \<Rightarrow> nat \<Rightarrow> jsval \<Rightarrow> jsval
     \<Rightarrow> clientTimestamps option \<Rightarrow> error + (service \<times> database \<times> answer_result \<times> nat)" where
  "recordAnswer clk n svc db gameId questionId bid answer ts =
     (case getGame svc gameId of
        Inl e \<Rightarrow> Inl e
      | Inr g \<Rightarrow>
          (case recordAnswer_game clk n db g gameId questionId bid answer ts of
             Inl e \<Rightarrow> Inl e
           | Inr (g1, db1, r, n1) \<Rightarrow> Inr (putGame svc gameId g1, db1, r, n1)))"

definition recordBuzz ::
  "clock \<Rightarrow> nat \<Rightarrow> service \<Rightarrow> string \<Rightarrow> nat \<Rightarrow> jsval \<Rightarrow> clientTimestamps option
     \<Rightarrow> error + (service \<times> buzz_result \<times> nat)" where
  "recordBuzz clk n svc gameId questionId bid ts =
     (case getGame svc gameId of
        Inl e \<Rightarrow> Inl e
      | Inr g \<Rightarrow>
          (case recordBuzz_game clk n g questionId bid ts of
             Inl e \<Rightarrow> Inl e
           | Inr (g1, r, n1) \<Rightarrow> Inr (putGame svc gameId g1, r, n1)))"

text \<open>
  The \<open>responseTime\<close> field of the object a call of \<open>recordAnswer\<close> returned, and of the
  one a call of \<open>recordBuzz\<close> returned when it has this field.
\<close>

fun answerTimeOf :: "error + (service \<times> database \<times> answer_result \<times> nat) \<Rightarrow> jsnum option" where
  "answerTimeOf (Inl e) = None"
| "answerTimeOf (Inr (svc, db, r, n)) = Some (res_responseTime r)"

fun buzzTimeOf :: "error + (service \<times> buzz_result \<times> nat) \<Rightarrow> jsnum option" where
  "buzzTimeOf (Inr (svc, Recorded w p rt k, n)) = Some rt"
| "buzzTimeOf _ = None"

text \<open>
  A call of the \<open>onBuzzWinner\<close> callback: its arguments \<open>gameId\<close>, \<open>questionId\<close> and the
  winner.
\<close>

type_synonym winner_call = "string \<times> nat \<times> buzz"

definition evaluateBuzzes ::
  "service \<Rightarrow> string \<Rightarrow> nat \<Rightarrow> error + (service \<times> winner_call list)" where
  "evaluateBuzzes svc gameId questionId =
     (case getGame svc gameId of
        Inl e \<Rightarrow> Inl e
      | Inr g \<Rightarrow>
          (case evaluateBuzzes_game g of
             Inl e \<Rightarrow> Inl e
           | Inr (g1, None) \<Rightarrow> Inr (putGame svc gameId g1, [])
           | Inr (g1, Some winner) \<Rightarrow>
               Inr (putGame svc gameId g1,
                    if onBuzzWinner svc then [(gameId, questionId, winner)] else [])))"

definition validateBuzz ::
  "service \<Rightarrow> database \<Rightarrow> string \<Rightarrow> nat \<Rightarrow> jsval \<Rightarrow> bool
     \<Rightarrow> error + (service \<times> database \<times> answer_result)" where
  "validateBuzz svc db gameId questionId bid ok =
     (case getGame svc gameId of
        Inl e \<Rightarrow> Inl e
      | Inr g \<Rightarrow>
          (case validateBuzz_game db g gameId questionId bid ok of
             (g1, db1, r) \<Rightarrow> Inr (putGame svc gameId g1, db1, r)))"

definition excludePlayer :: "service \<Rightarrow> string \<Rightarrow> nat \<Rightarrow> jsval \<Rightarrow> error + service" where
  "excludePlayer svc gameId questionId bid =
     (case getGame svc gameId of
        Inl e \<Rightarrow> Inl e
      | Inr g \<Rightarrow> Inr (putGame svc gameId (excludePlayer_game g bid)))"

definition getExcludedPlayers :: "service \<Rightarrow> string \<Rightarrow> nat \<Rightarrow> error + jsval list" where
  "getExcludedPlayers svc gameId questionId =
     (case getGame svc gameId of
        Inl e \<Rightarrow> Inl e
      | Inr g \<Rightarrow> Inr (getExcludedPlayers_game g))"

definition getCurrentQuestion ::
  "clock \<Rightarrow> nat \<Rightarrow> service \<Rightarrow> database \<Rightarrow> string
     \<Rightarrow> error + (service \<times> question option \<times> nat)" where
  "getCurrentQuestion clk n svc db gameId =
     (case getGame svc gameId of
        Inl e \<Rightarrow> Inl e
      | Inr g \<Rightarrow>
          (case getCurrentQuestion_game clk n db g of
             (g1, q, n1) \<Rightarrow> Inr (putGame svc gameId g1, q, n1)))"

section \<open>Reachable game states\<close>

text \<open>
  The calls that change a game object: the methods of the service, given the game
  \<open>getGame\<close> returned, and the timer callback. \<open>exec\<close> is the effect of one call on the
  in-memory game, at the clock and the count of readings the call carries; a call that
  throws is \<open>Inl\<close>.
\<close>

datatype call =
    StartGame clock nat
  | RegisterPlayer jsval string
  | RenamePlayer jsval string
  | GetCurrentQuestion clock nat
  | RecordAnswer clock nat nat jsval jsval "clientTimestamps option"
  | NextQuestion clock nat
  | EndGame clock nat
  | RecordBuzz clock nat nat jsval "clientTimestamps option"
  | EvaluateBuzzes
  | BuzzEvaluationTimeout
  | ValidateBuzz nat jsval bool
  | ExcludePlayer jsval

fun exec :: "database \<Rightarrow> game \<Rightarrow> call \<Rightarrow> error + game" where
  "exec db g (StartGame clk n) = map_sum id fst (startGame_game clk n g)"
| "exec db g (RegisterPlayer bid nm) = Inr (registerPlayer_game g bid nm)"
| "exec db g (RenamePlayer bid nm) = renamePlayer_game g bid nm"
| "exec db g (GetCurrentQuestion clk n) = Inr (fst (getCurrentQuestion_game clk n db g))"
| "exec db g (RecordAnswer clk n q bid a ts) =
     map_sum id fst (recordAnswer_game clk n db g (g_id g) q bid a ts)"
| "exec db g (NextQuestion clk n) = Inr (fst (nextQuestion_game clk n g))"
| "exec db g (EndGame clk n) = Inr (fst (endGame_game clk n g))"
| "exec db g (RecordBuzz clk n q bid ts) = map_sum id fst (recordBuzz_game clk n g q bid ts)"
| "exec db g EvaluateBuzzes = map_sum id fst (evaluateBuzzes_game g)"
| "exec db g BuzzEvaluationTimeout = map_sum id fst (buzzEvaluationTimeout_game g)"
| "exec db g (ValidateBuzz q bid ok) = Inr (fst (validateBuzz_game db g (g_id g) q bid ok))"
| "exec db g (ExcludePlayer bid) = Inr (excludePlayer_game g bid)"

text \<open>
  The states a game goes through: \<open>createGame\<close> builds it, then any calls follow, each with
  whatever question store is current.
\<close>

inductive reachable :: "game \<Rightarrow> bool" where
  created: "reachable (createGame_gameState gameId name qids st)"
| called: "reachable g \<Longrightarrow> exec db g c = Inr g' \<Longrightarrow> reachable g'"

section \<open>Example data\<close>

text \<open>
  A clock, a game, a question store and a service used to run the definitions on concrete
  inputs.
\<close>

definition example_clock :: clock where
  "example_clock n = 5000 + int n"

definition example_settings :: settings where
  "example_settings =
     \<lparr>mcqDuration = 30000, buzzerDuration = 10000, showCorrectAnswer = True,
      showIntermediateRanking = True\<rparr>"

text \<open>
  A started game with three registered players whose first question (number 2, a BUZZER
  question) was dispatched at server time 1000.
\<close>

definition example_game :: game where
  "example_game =
     \<lparr>g_id = ''game_1'', g_name = ''Quiz'', status = Started, g_settings = example_settings,
      questionIds = [2, 1], currentQuestionIndex = 0, questionStartTime = Some 1000,
      players = [(JStr ''B1'', newPlayer (JStr ''B1'') ''Alice''),
                 (JStr ''B2'', newPlayer (JStr ''B2'') ''Bob''),
                 (JStr ''B3'', newPlayer (JStr ''B3'') ''Carol'')],
      currentQuestionAnswers = [], currentQuestionBuzzes = Some [],
      currentQuestionExcluded = Some [], currentQuestionWinner = JNull, buzzerLocked = False,
      buzzEvaluationTimer = None, startedAt = Some 900, endedAt = None\<rparr>"

definition example_db :: database where
  "example_db =
     \<lparr>questions = (\<lambda>i.
        if i = 1 then Some \<lparr>q_id = 1, q_text = ''Capital of France'', q_type = MCQ,
          q_answers = Some ''[]'', correct_answer = Some 0, q_category = None,
          q_points = Some 10\<rparr>
        else if i = 2 then Some \<lparr>q_id = 2, q_text = ''Name a country'', q_type = BUZZER,
          q_answers = None, correct_answer = None, q_category = None, q_points = Some 15\<rparr>
        else None),
      jingles = (\<lambda>i. None), game_results = [], insert_ok = (\<lambda>r. True)\<rparr>"

definition example_service :: service where
  "example_service = \<lparr>activeGames = [(''game_1'', example_game)], onBuzzWinner = True\<rparr>"

text \<open>A \<open>timestamps\<close> object whose only field is \<open>timestamp_synced_action\<close>.\<close>

definition synced :: "jsval \<Rightarrow> clientTimestamps option" where
  "synced v =
     Some \<lparr>timestamp_local_action = JUndefined, timestamp_synced_action = v,
           calibrated_latency = JUndefined\<rparr>"

definition syncedAt :: "int \<Rightarrow> clientTimestamps option" where
  "syncedAt t = synced (JNum t)"

text \<open>What \<open>evaluateBuzzes\<close> does to one entry of the list when it elects a winner.\<close>

definition markEligible :: "jsval jsset \<Rightarrow> buzz \<Rightarrow> buzz" where
  "markEligible ex b = (if eligible ex b then b\<lparr>processed := True\<rparr> else b)"

text \<open>
  Scenario S2 of the specification: after the question start, B1, B2 and B3 buzz with response
  times 520, 505 and 540 ms, in this order of arrival.
\<close>

definition s2_buzzes :: "buzz list" where
  "s2_buzzes =
     [\<lparr>buzzerID = JStr ''B1'', responseTime = Num 520, timestamps = syncedAt 1520,
       receivedAt = 1530, processed = False\<rparr>,
      \<lparr>buzzerID = JStr ''B2'', responseTime = Num 505, timestamps = syncedAt 1505,
       receivedAt = 1540, processed = False\<rparr>,
      \<lparr>buzzerID = JStr ''B3'', responseTime = Num 540, timestamps = syncedAt 1540,
       receivedAt = 1550, processed = False\<rparr>]"

definition s2_game :: game where
  "s2_game =
     example_game\<lparr>currentQuestionBuzzes := Some s2_buzzes, currentQuestionExcluded := Some [],
       buzzEvaluationTimer := Some 2\<rparr>"

definition s2_service :: service where
  "s2_service = \<lparr>activeGames = [(''game_1'', s2_game)], onBuzzWinner = True\<rparr>"

text \<open>The same game once the evaluation timer has fired: B2 elected, buzzers locked.\<close>

definition s2_locked_game :: game where
  "s2_locked_game =
     s2_game\<lparr>currentQuestionBuzzes := Some (map (markEligible []) s2_buzzes),
       currentQuestionWinner := JStr ''B2'', buzzerLocked := True,
       buzzEvaluationTimer := None\<rparr>"

definition s2_locked_service :: service where
  "s2_locked_service = \<lparr>activeGames = [(''game_1'', s2_locked_game)], onBuzzWinner = True\<rparr>"

text \<open>The locked game after the console confirmed B2's answer (\<open>validateBuzz\<close>, correct).\<close>

definition s2_validated_game :: game where
  "s2_validated_game =
     s2_locked_game\<lparr>players :=
       Map_set (players s2_locked_game) (JStr ''B2'')
         (updatePlayerStats (newPlayer (JStr ''B2'') ''Bob'') 15 True (Num 505))\<rparr>"

text \<open>Scenario S3: from the locked game, the console reopens the buzzers against B2.\<close>

definition s3_game :: game where
  "s3_game = excludePlayer_game s2_locked_game (JStr ''B2'')"

definition s3_service :: service where
  "s3_service = \<lparr>activeGames = [(''game_1'', s3_game)], onBuzzWinner = True\<rparr>"




text \<open>
  The game object as \<open>createGame\<close> leaves it, the same game after the console reopened
  the buzzers against B1 before any buzz tracking existed (\<open>excludePlayer\<close> alone), and
  after B1 buzzed then.
\<close>

definition fresh_game :: game where
  "fresh_game = createGame_gameState ''game_1'' ''Quiz'' [2, 1] example_settings"

definition fresh_service :: service where
  "fresh_service = \<lparr>activeGames = [(''game_1'', fresh_game)], onBuzzWinner = True\<rparr>"

definition excluded_service :: service where
  "excluded_service =
     \<lparr>activeGames =
        [(''game_1'', fresh_game\<lparr>currentQuestionExcluded := Some [JStr ''B1''],
                                   currentQuestionWinner := JNull\<rparr>)],
      onBuzzWinner = True\<rparr>"

definition rebuzzed_service :: service where
  "rebuzzed_service =
     \<lparr>activeGames =
        [(''game_1'',
          fresh_game\<lparr>currentQuestionBuzzes :=
                       Some [\<lparr>buzzerID = JStr ''B1'', responseTime = Num 0, timestamps = None,
                              receivedAt = 5000, processed = False\<rparr>],
                     currentQuestionExcluded := Some [],
                     currentQuestionWinner := JNull,
                     buzzEvaluationTimer := Some 2\<rparr>)],
      onBuzzWinner = True\<rparr>"

text \<open>
  The condition under which the checks of \<open>recordBuzz\<close> and \<open>evaluateBuzzes\<close> read defined
  fields: a locked game has a buzz list, and a game with a buzz list has an exclusion set.
\<close>

definition trackingConsistent :: "game \<Rightarrow> bool" where
  "trackingConsistent g =
     ((buzzerLocked g \<longrightarrow> currentQuestionBuzzes g \<noteq> None) \<and>
      (currentQuestionBuzzes g \<noteq> None \<longrightarrow> currentQuestionExcluded g \<noteq> None))"

section \<open>The WebSocket server (websocket/server.js): state and sending\<close>

text \<open>
  A transport is a \<open>ws\<close> object, named here by a number. The server keeps on it the flags
  \<open>_identified\<close>, \<open>_clientType\<close>, \<open>_buzzerID\<close> and \<open>_ip\<close>; \<open>readyState\<close> belongs to the
  transport itself.
\<close>

datatype readyState = CONNECTING | OPEN | CLOSING | CLOSED

datatype clientType = Angular | Buzzer

record socket =
  identified :: bool
  clientType :: "clientType option"
  socketBuzzerID :: jsval
  socketIp :: string
  readyState :: readyState

record buzzerInfo =
  bi_name :: string
  macAddress :: string
  connectedAt :: int
  playerNumber :: nat
  bi_ip :: string
  battery :: jsval
  wifiRSSI :: jsval
  latency :: jsval

text \<open>An element of the \<open>buzzers\<close> array of \<open>BUZZER_LIST_UPDATE\<close>.\<close>

record buzzerSummary =
  bs_id :: jsval
  bs_name :: string
  bs_connectedAt :: int
  bs_battery :: jsval
  bs_wifiRSSI :: jsval
  bs_latency :: jsval
  bs_connected :: bool

text \<open>The one \<open>ERROR\<close> message of the modelled code: "Question \<open>n\<close> introuvable".\<close>

datatype error_message = QuestionIntrouvable nat

text \<open>
  The payload of a text frame the server sends, one constructor for each message type, the
  arguments in the order of the fields in the source.
\<close>

datatype payload =
    CONNECTED int int nat string
  | BUZZER_LIST_UPDATE "buzzerSummary list" nat
  | CONNECTION_REJECTED string
  | CONNECTION_ACK jsval string int nat
  | BUZZER_CONNECTED jsval string int nat
  | BUZZER_DISCONNECTED jsval nat
  | TIME_SYNC_RES jsval int int
  | PONG jsval int
  | PLAYER_NAME_UPDATE string
  | BUZZER_STATUS_UPDATE jsval jsval jsval jsval
  | ANSWER_RESULT nat bool int jsnum
  | ANSWER_RECEIVED jsval nat jsval bool int jsnum "clientTimestamps option"
  | BUZZ_IGNORED ignore_reason
  | BUZZER_LOCKED string nat jsval
  | BUZZ_WINNER jsval jsval nat string jsnum
  | BUZZ_VALIDATED jsval bool int jsnum
  | BUZZER_UNLOCKED string nat
  | BUZZER_EXCLUDED string nat string
  | BUZZ_REOPENED "jsval list" int
  | GAME_STARTED string string jsval
  | QUESTION_START string nat string question_type string int int "string option" "int option"
  | QUESTION_SENT nat nat int
  | ERROR error_message
  | JINGLE_ERROR jsval nat string
  | JINGLE_START nat string string nat
  | JINGLE_STARTED jsval nat string nat
  | JINGLE_END nat nat nat
  | JINGLE_COMPLETED jsval nat nat

text \<open>
  The envelope \<open>{type, timestamp, sender: 'SERVER', payload}\<close> of a text frame (the type is
  the constructor of the payload), or the bytes of a binary frame.
\<close>

datatype frame = Text (timestamp: int) (payloadOf: payload) | Binary "8 word list"

text \<open>What the server does to a transport: \<open>ws.send\<close> and \<open>ws.close(code, reason)\<close>.\<close>

datatype effect = Send nat frame | Close nat nat string

text \<open>
  The state of the server object and of what it is wired to: the transports, the console
  slot, the buzzer registry, the set of running jingle streams, the read streams opened so
  far, the injected game service
  and database handle (\<open>this.db\<close> is \<open>null\<close>, or it is the one store, \<open>store\<close>, that
  the game service writes to as well), the files and the working directory of the process. \<open>outbox\<close>
  collects the effects in the order they happen. \<open>reads\<close> counts the calls of
  \<open>Date.now()\<close> made so far, in the server and in the game service alike.
\<close>

text \<open>
  A read stream that \<open>handleJinglePlay\<close> opened, with what its handlers captured (buzzer,
  jingle, the transport of the buzzer at that time, the file size) and their counter
  \<open>chunkIndex\<close>; \<open>chunks\<close> is what the stream has still to deliver.
\<close>

record stream =
  st_buzzerID :: jsval
  st_jingleId :: nat
  st_ws :: nat
  st_fileSize :: nat
  chunks :: "8 word list list"
  chunkIndex :: nat
  destroyed :: bool
  ended :: bool

record server =
  sockets :: "nat \<Rightarrow> socket"
  angularClient :: "nat option"
  buzzerClients :: "(jsval, nat \<times> buzzerInfo) jsmap"
  activeJingleStreams :: "jsval jsset"
  streams :: "stream list"
  gameService :: "service option"
  dbHandle :: bool
  store :: database
  files :: "string \<Rightarrow> 8 word list option"
  cwd :: string
  outbox :: "effect list"
  reads :: nat

definition Date_now :: "clock \<Rightarrow> server \<Rightarrow> int \<times> server" where
  "Date_now clk s = (clk (reads s), s\<lparr>reads := Suc (reads s)\<rparr>)"

definition isOpen :: "server \<Rightarrow> nat \<Rightarrow> bool" where
  "isOpen s w = (readyState (sockets s w) = OPEN)"

definition sendToClient :: "clock \<Rightarrow> server \<Rightarrow> nat \<Rightarrow> payload \<Rightarrow> server" where
  "sendToClient clk s w pl =
     (if isOpen s w
      then (let (t, s1) = Date_now clk s
            in s1\<lparr>outbox := outbox s1 @ [Send w (Text t pl)]\<rparr>)
      else s)"

definition sendToAngular :: "clock \<Rightarrow> server \<Rightarrow> payload \<Rightarrow> server" where
  "sendToAngular clk s pl =
     (case angularClient s of
        Some w \<Rightarrow> if isOpen s w then sendToClient clk s w pl else s
      | None \<Rightarrow> s)"

definition sendToBuzzer :: "clock \<Rightarrow> server \<Rightarrow> jsval \<Rightarrow> payload \<Rightarrow> server" where
  "sendToBuzzer clk s bid pl =
     (case Map_get (buzzerClients s) bid of
        Some (w, info) \<Rightarrow> if isOpen s w then sendToClient clk s w pl else s
      | None \<Rightarrow> s)"

text \<open>\<open>buzzerClients.forEach\<close> visits the keys the map has when the loop starts, in order.\<close>

definition broadcastToBuzzers :: "clock \<Rightarrow> server \<Rightarrow> payload \<Rightarrow> server" where
  "broadcastToBuzzers clk s pl =
     fold (\<lambda>bid acc. sendToBuzzer clk acc bid pl) (map fst (buzzerClients s)) s"

text \<open>
  \<open>ws.close(code, reason)\<close> on an open transport starts the closing handshake; the
  \<open>close\<close> event comes later.
\<close>

definition wsClose :: "server \<Rightarrow> nat \<Rightarrow> nat \<Rightarrow> string \<Rightarrow> server" where
  "wsClose s w code reason =
     (if isOpen s w
      then s\<lparr>sockets := (sockets s)(w := (sockets s w)\<lparr>readyState := CLOSING\<rparr>),
             outbox := outbox s @ [Close w code reason]\<rparr>
      else s)"

section \<open>Connection, identification, disconnection\<close>

text \<open>The \<open>connection\<close> event of \<open>setupServer\<close>: a new transport from address \<open>ip\<close>.\<close>

definition onConnection :: "server \<Rightarrow> nat \<Rightarrow> string \<Rightarrow> server" where
  "onConnection s w addr =
     s\<lparr>sockets := (sockets s)(w :=
          \<lparr>identified = False, clientType = None, socketBuzzerID = JUndefined,
           socketIp = addr,
           readyState = OPEN\<rparr>)\<rparr>"

definition sendBuzzerListToAngular :: "clock \<Rightarrow> server \<Rightarrow> server" where
  "sendBuzzerListToAngular clk s =
     (if Map_size (buzzerClients s) = 0 then sendToAngular clk s (BUZZER_LIST_UPDATE [] 0)
      else
        let buzzersList =
              map (\<lambda>(bid, (w, info)).
                     \<lparr>bs_id = bid, bs_name = bi_name info, bs_connectedAt = connectedAt info,
                      bs_battery = battery info, bs_wifiRSSI = wifiRSSI info,
                      bs_latency = latency info, bs_connected = True\<rparr>)
                  (buzzerClients s)
        in sendToAngular clk s (BUZZER_LIST_UPDATE buzzersList (length buzzersList)))"

definition handleAngularConnection :: "clock \<Rightarrow> server \<Rightarrow> nat \<Rightarrow> server" where
  "handleAngularConnection clk s w =
     (let s1 = s\<lparr>angularClient := Some w\<rparr>;
          (sessionTime, s2) = Date_now clk s1;
          (serverTime, s3) = Date_now clk s2;
          s4 = sendToClient clk s3 w (CONNECTED sessionTime serverTime 10 ''1.0.0'')
      in sendBuzzerListToAngular clk s4)"

definition handleBuzzerRegistration ::
  "clock \<Rightarrow> server \<Rightarrow> nat \<Rightarrow> jsval \<Rightarrow> string option \<Rightarrow> server" where
  "handleBuzzerRegistration clk s w bid mac =
     (if Map_has (buzzerClients s) bid
      then
        let s1 = sendToClient clk s w (CONNECTION_REJECTED ''Buzzer ID already connected'')
        in wsClose s1 w 4002 ''Duplicate buzzer ID''
      else
        let number = Map_size (buzzerClients s) + 1;
            (t, s1) = Date_now clk s;
            buzzerInfo =
              \<lparr>bi_name = ''En attente de nom'',
               macAddress = (case mac of None \<Rightarrow> ''unknown''
                             | Some m \<Rightarrow> if m = [] then ''unknown'' else m),
               connectedAt = t, playerNumber = number, bi_ip = socketIp (sockets s w),
               battery = JNull, wifiRSSI = JNull, latency = JNull\<rparr>;
            s2 = s1\<lparr>buzzerClients := Map_set (buzzerClients s1) bid (w, buzzerInfo)\<rparr>;
            (serverTime, s3) = Date_now clk s2;
            s4 = sendToClient clk s3 w
                   (CONNECTION_ACK bid (bi_name buzzerInfo) serverTime number)
        in sendToAngular clk s4
             (BUZZER_CONNECTED bid (bi_name buzzerInfo) (connectedAt buzzerInfo)
                (Map_size (buzzerClients s4))))"

text \<open>
  \<open>handleDisconnection\<close> looks only at the flags of the closing transport; with a falsy
  \<open>_buzzerID\<close> it does nothing.
\<close>

definition handleDisconnection :: "clock \<Rightarrow> server \<Rightarrow> nat \<Rightarrow> server" where
  "handleDisconnection clk s w =
     (case clientType (sockets s w) of
        Some Angular \<Rightarrow> s\<lparr>angularClient := None\<rparr>
      | Some Buzzer \<Rightarrow>
          (let bid = socketBuzzerID (sockets s w)
           in if \<not> truthyVal bid then s
              else
                let s1 = s\<lparr>buzzerClients := Map_delete (buzzerClients s) bid\<rparr>
                in sendToAngular clk s1 (BUZZER_DISCONNECTED bid (Map_size (buzzerClients s1))))
      | None \<Rightarrow> s)"

text \<open>The \<open>close\<close> event of a transport.\<close>

definition onClose :: "clock \<Rightarrow> server \<Rightarrow> nat \<Rightarrow> server" where
  "onClose clk s w =
     handleDisconnection clk
       (s\<lparr>sockets := (sockets s)(w := (sockets s w)\<lparr>readyState := CLOSED\<rparr>)\<rparr>) w"

text \<open>
  The identification timer of \<open>setupServer\<close>, firing 30 s after the connection unless the
  identification or the \<open>close\<close> event cleared it.
\<close>

definition identificationTimeout :: "server \<Rightarrow> nat \<Rightarrow> server" where
  "identificationTimeout s w =
     (if \<not> identified (sockets s w) then wsClose s w 4001 ''Identification timeout'' else s)"

text \<open>\<open>TimeService.handleTimeSyncRequest\<close> (time.service.js), with its two clock readings.\<close>

record timeSyncResult =
  T1 :: jsval
  T2 :: int
  T3 :: int
  serverTime :: int

definition handleTimeSyncRequest :: "jsval \<Rightarrow> int \<Rightarrow> int \<Rightarrow> timeSyncResult" where
  "handleTimeSyncRequest clientTimestamp now1 now2 =
     \<lparr>T1 = clientTimestamp, T2 = now1, T3 = now2, serverTime = now2\<rparr>"

section \<open>Node's path module (POSIX) and file reads\<close>

text \<open>
  \<open>path.isAbsolute\<close>, \<open>path.normalize\<close>, \<open>path.resolve\<close> with one argument and
  \<open>path.extname\<close>, as Node implements them for POSIX paths: \<open>normalizeString\<close> walks the
  segments between slashes, drops empty and \<open>.\<close> segments, and lets \<open>..\<close> remove the
  segment before it; above the start, \<open>..\<close> is kept for a relative path and dropped for an
  absolute one.
\<close>

definition isAbsolute :: "string \<Rightarrow> bool" where
  "isAbsolute p = (p \<noteq> [] \<and> hd p = CHR ''/'')"

fun splitFrom :: "string \<Rightarrow> string \<Rightarrow> string list" where
  "splitFrom seg [] = [seg]"
| "splitFrom seg (c # cs) =
     (if c = CHR ''/'' then seg # splitFrom [] cs else splitFrom (seg @ [c]) cs)"

definition splitPath :: "string \<Rightarrow> string list" where
  "splitPath p = splitFrom [] p"

fun joinPath :: "string list \<Rightarrow> string" where
  "joinPath [] = []"
| "joinPath [x] = x"
| "joinPath (x # y # ys) = x @ ''/'' @ joinPath (y # ys)"

definition normalizeStep :: "bool \<Rightarrow> string list \<Rightarrow> string \<Rightarrow> string list" where
  "normalizeStep allowAboveRoot res seg =
     (if seg = [] \<or> seg = ''.'' then res
      else if seg = ''..'' then
        (if res \<noteq> [] \<and> last res \<noteq> ''..'' then butlast res
         else if allowAboveRoot then res @ [''..'']
         else res)
      else res @ [seg])"

definition normalizeString :: "bool \<Rightarrow> string \<Rightarrow> string" where
  "normalizeString allowAboveRoot p =
     joinPath (foldl (normalizeStep allowAboveRoot) [] (splitPath p))"

definition normalizePath :: "string \<Rightarrow> string" where
  "normalizePath p =
     (if p = [] then ''.''
      else
        let absolute = (hd p = CHR ''/'');
            trailingSeparator = (last p = CHR ''/'');
            r = normalizeString (\<not> absolute) p
        in if r = [] then (if absolute then ''/'' else if trailingSeparator then ''./'' else ''.'')
           else
             let r1 = (if trailingSeparator then r @ ''/'' else r)
             in if absolute then ''/'' @ r1 else r1)"

text \<open>\<open>path.resolve(p)\<close> in a process whose working directory is \<open>dir\<close>.\<close>

definition resolve :: "string \<Rightarrow> string \<Rightarrow> string" where
  "resolve dir p =
     (let resolvedPath = (if p = [] then dir @ ''/''
                          else if isAbsolute p then p @ ''/''
                          else dir @ ''/'' @ p @ ''/'');
          resolvedAbsolute = (isAbsolute p \<or> isAbsolute dir);
          r = normalizeString (\<not> resolvedAbsolute) resolvedPath
      in if resolvedAbsolute then ''/'' @ r
         else if r \<noteq> [] then r else ''.'')"

definition basenameOf :: "string \<Rightarrow> string" where
  "basenameOf p = last (splitPath (rev (dropWhile (\<lambda>c. c = CHR ''/'') (rev p))))"

definition extname :: "string \<Rightarrow> string" where
  "extname p =
     (let b = basenameOf p;
          dot = length b - length (takeWhile (\<lambda>c. c \<noteq> CHR ''.'') (rev b)) - 1
      in if CHR ''.'' \<notin> set b \<or> dot = 0 \<or> b = ''..'' then [] else drop dot b)"

text \<open>
  \<open>toLowerCase\<close> on code units below 256: the letters A to Z and the upper-case letters of
  Latin-1 (\<open>0xC0\<close> to \<open>0xDE\<close> without the multiplication sign \<open>0xD7\<close>) move up by 32, the
  others stay.
\<close>

definition toLowerCase :: "string \<Rightarrow> string" where
  "toLowerCase =
     map (\<lambda>c. let u = (of_char c :: nat)
              in if (65 \<le> u \<and> u \<le> 90) \<or> (192 \<le> u \<and> u \<le> 222 \<and> u \<noteq> 215)
                 then char_of (u + 32) else c)"

text \<open>
  A read stream with \<open>highWaterMark = n\<close> on a regular file delivers its bytes in chunks of
  \<open>n\<close> bytes, the last one shorter when the size is not a multiple of \<open>n\<close>.
\<close>

function readChunks :: "nat \<Rightarrow> 'a list \<Rightarrow> 'a list list" where
  "readChunks n xs = (if n = 0 \<or> xs = [] then [] else take n xs # readChunks n (drop n xs))"
  by pat_completeness auto
termination
  by (relation "measure (\<lambda>(n, xs). length xs)") auto

declare readChunks.simps [simp del]

text \<open>
  \<open>Buffer.writeUInt32LE\<close>: the four bytes of the value, lowest first; a value outside
  \<open>0 .. 2^32 - 1\<close> throws.
\<close>

definition uint32LE :: "nat \<Rightarrow> 8 word list" where
  "uint32LE v =
     [of_nat (v mod 256), of_nat (v div 256 mod 256), of_nat (v div 65536 mod 256),
      of_nat (v div 16777216 mod 256)]"

definition writeUInt32LE :: "nat \<Rightarrow> error + 8 word list" where
  "writeUInt32LE v = (if v < 2 ^ 32 then Inr (uint32LE v) else Inl RangeError)"


section \<open>Jingle streaming: handleJinglePlay\<close>

definition CHUNK_SIZE :: nat where
  "CHUNK_SIZE = 4096"

definition jingleError :: "clock \<Rightarrow> server \<Rightarrow> jsval \<Rightarrow> nat \<Rightarrow> string \<Rightarrow> server" where
  "jingleError clk s bid jingleId msg = sendToAngular clk s (JINGLE_ERROR bid jingleId msg)"

text \<open>
  The part of \<open>handleJinglePlay\<close> that runs at once: the checks, the two start messages and
  the opening of the read stream, whose events come later.
\<close>

definition handleJinglePlay :: "clock \<Rightarrow> server \<Rightarrow> jsval \<Rightarrow> nat \<Rightarrow> server" where
  "handleJinglePlay clk s bid jingleId =
     (if Set_has (activeJingleStreams s) bid
      then jingleError clk s bid jingleId ''Buzzer is already playing a jingle''
      else case Map_get (buzzerClients s) bid of
        None \<Rightarrow> jingleError clk s bid jingleId ''Buzzer not connected''
      | Some (w, info) \<Rightarrow>
          if \<not> isOpen s w then jingleError clk s bid jingleId ''Buzzer not connected''
          else (case (if dbHandle s then jingles (store s) jingleId else None) of
            None \<Rightarrow> jingleError clk s bid jingleId ''Jingle not found''
          | Some jingle \<Rightarrow>
              let resolvedPath = resolve (cwd s) (file_path jingle);
                  normalizedStored = normalizePath (file_path jingle)
              in if \<not> isAbsolute (file_path jingle) \<and>
                    resolvedPath \<noteq> resolve (cwd s) normalizedStored
                 then jingleError clk s bid jingleId ''Invalid file path''
                 else (case files s resolvedPath of
                   None \<Rightarrow>
                     jingleError clk s bid jingleId (''File not found: '' @ file_path jingle)
                 | Some bytes \<Rightarrow>
                     let fileSize = length bytes;
                         ext = remove1 (CHR ''.'') (toLowerCase (extname resolvedPath));
                         s1 = sendToBuzzer clk s bid
                                (JINGLE_START jingleId (j_name jingle) ext fileSize);
                         s2 = sendToAngular clk s1
                                (JINGLE_STARTED bid jingleId (j_name jingle) fileSize)
                     in s2\<lparr>activeJingleStreams := Set_add (activeJingleStreams s2) bid,
                           streams := streams s2 @
                             [\<lparr>st_buzzerID = bid, st_jingleId = jingleId, st_ws = w,
                               st_fileSize = fileSize,
                               chunks = readChunks CHUNK_SIZE bytes, chunkIndex = 0,
                               destroyed = False, ended = False\<rparr>]\<rparr>)))"

text \<open>
  The \<open>data\<close> handler of stream number \<open>k\<close>, run on its next chunk: the framed packet goes
  to the captured transport if that is open, else the stream is destroyed.
\<close>

definition streamData :: "server \<Rightarrow> nat \<Rightarrow> error + server" where
  "streamData s k =
     (if k \<ge> length (streams s) then Inr s
      else
        let st = streams s ! k in
        if destroyed st \<or> chunks st = [] then Inr s
        else
          let chunk = hd (chunks st);
              st1 = st\<lparr>chunks := tl (chunks st)\<rparr>
          in if isOpen s (st_ws st)
             then (case (writeUInt32LE (st_jingleId st), writeUInt32LE (chunkIndex st)) of
                     (Inr h1, Inr h2) \<Rightarrow>
                       Inr (s\<lparr>outbox := outbox s @ [Send (st_ws st) (Binary (h1 @ h2 @ chunk))],
                              streams := (streams s)[k := st1\<lparr>chunkIndex := chunkIndex st + 1\<rparr>]\<rparr>)
                   | _ \<Rightarrow> Inl RangeError)
             else Inr (s\<lparr>streams := (streams s)[k := st1\<lparr>destroyed := True\<rparr>]\<rparr>))"


text \<open>The \<open>error\<close> handler, for a read that fails with message \<open>msg\<close>.\<close>

definition streamError :: "clock \<Rightarrow> server \<Rightarrow> nat \<Rightarrow> string \<Rightarrow> server" where
  "streamError clk s k msg =
     (if k \<ge> length (streams s) then s
      else
        let st = streams s ! k;
            s1 = s\<lparr>activeJingleStreams := Set_delete (activeJingleStreams s) (st_buzzerID st),
                   streams := (streams s)[k := st\<lparr>destroyed := True\<rparr>]\<rparr>
        in sendToAngular clk s1
             (JINGLE_ERROR (st_buzzerID st) (st_jingleId st) (''Read error: '' @ msg)))"



section \<open>Messages from the console and the buzzers\<close>

text \<open>
  A parsed incoming message, by its \<open>type\<close>, with the payload fields the handlers read.
  A buzzer identifier, an answer, the fields of \<open>timestamps\<close> and the values that are only
  passed on are whatever the message carried; game, question and jingle identifiers and
  names are at the types the protocol gives them. \<open>OtherType\<close> is a message whose type
  none of the \<open>switch\<close> statements knows.
\<close>

datatype message =
    ANGULAR_CONNECT
  | BUZZER_REGISTER jsval "string option"
  | TIME_SYNC_REQ jsval
  | PING jsval
  | STATUS_UPDATE jsval jsval jsval
  | ANSWER_MCQ string nat jsval "clientTimestamps option"
  | ANSWER_BUZZER string nat "clientTimestamps option"
  | REQUEST_BUZZER_LIST
  | PLAYER_RENAME jsval string
  | QUESTION_SEND string nat
  | GAME_START string string jsval
  | BUZZER_DISCONNECT jsval
  | BUZZ_CORRECT string nat jsval
  | BUZZ_REOPEN string nat jsval
  | JINGLE_PLAY jsval nat
  | OtherType string

definition handlePreIdentificationMessage :: "clock \<Rightarrow> server \<Rightarrow> nat \<Rightarrow> message \<Rightarrow> server" where
  "handlePreIdentificationMessage clk s w m =
     (case m of
        TIME_SYNC_REQ t1 \<Rightarrow>
          let (t2, s1) = Date_now clk s;
              (t3, s2) = Date_now clk s1
          in sendToClient clk s2 w (TIME_SYNC_RES t1 t2 t3)
      | PING t_send \<Rightarrow>
          let (t_receive, s1) = Date_now clk s
          in sendToClient clk s1 w (PONG t_send t_receive)
      | _ \<Rightarrow> s)"

subsection \<open>Console messages\<close>

definition handlePlayerRename :: "clock \<Rightarrow> server \<Rightarrow> jsval \<Rightarrow> string \<Rightarrow> server" where
  "handlePlayerRename clk s bid newName =
     (case Map_get (buzzerClients s) bid of
        Some (w, info) \<Rightarrow>
          let s1 = s\<lparr>buzzerClients :=
                      Map_set (buzzerClients s) bid (w, info\<lparr>bi_name := newName\<rparr>)\<rparr>
          in sendToBuzzer clk s1 bid (PLAYER_NAME_UPDATE newName)
      | None \<Rightarrow> s)"

text \<open>
  A call into the game service starts at the server's count of clock readings and leaves
  its own count there. In \<open>QUESTION_START\<close> the answers travel as the stored text they are
  decoded from.
\<close>

definition handleQuestionSend :: "clock \<Rightarrow> server \<Rightarrow> string \<Rightarrow> nat \<Rightarrow> server" where
  "handleQuestionSend clk s gameId questionId =
     (let found = (if dbHandle s then questions (store s) questionId else None);
          (s1, question) =
            (case (found, gameService s) of
               (None, Some svc) \<Rightarrow>
                 (case getCurrentQuestion clk (reads s) svc (store s) gameId of
                    Inl e \<Rightarrow> (s, None)
                  | Inr (svc1, q, n1) \<Rightarrow> (s\<lparr>gameService := Some svc1, reads := n1\<rparr>, q))
             | _ \<Rightarrow> (s, found))
      in case question of
           None \<Rightarrow> sendToAngular clk s1 (ERROR (QuestionIntrouvable questionId))
         | Some q \<Rightarrow>
             let (startTime, s2) = Date_now clk s1;
                 questionPayload =
                   QUESTION_START gameId (q_id q) (q_text q) (q_type q)
                     (case q_category q of None \<Rightarrow> [] | Some c \<Rightarrow> c)
                     (pointsOrDefault (q_points q)) startTime
                     (if q_type q = MCQ then q_answers q else None)
                     (if q_type q = MCQ then correct_answer q else None);
                 s3 = broadcastToBuzzers clk s2 questionPayload;
                 sentCount = Map_size (buzzerClients s2);
                 (sentAt, s4) = Date_now clk s3
             in sendToAngular clk s4 (QUESTION_SENT (q_id q) sentCount sentAt))"

definition handleGameStart :: "clock \<Rightarrow> server \<Rightarrow> string \<Rightarrow> string \<Rightarrow> jsval \<Rightarrow> server" where
  "handleGameStart clk s gameId name totalQuestions =
     broadcastToBuzzers clk s (GAME_STARTED gameId name totalQuestions)"

definition handleBuzzerForceDisconnect :: "server \<Rightarrow> jsval \<Rightarrow> server" where
  "handleBuzzerForceDisconnect s bid =
     (case Map_get (buzzerClients s) bid of
        Some (w, info) \<Rightarrow> wsClose s w 4003 ''Disconnected by admin''
      | None \<Rightarrow> s)"

definition handleBuzzCorrect :: "clock \<Rightarrow> server \<Rightarrow> string \<Rightarrow> nat \<Rightarrow> jsval \<Rightarrow> server" where
  "handleBuzzCorrect clk s gameId questionId bid =
     (case gameService s of
        None \<Rightarrow> s
      | Some svc \<Rightarrow>
          (case validateBuzz svc (store s) gameId questionId bid True of
             Inl e \<Rightarrow> s
           | Inr (svc1, db1, r) \<Rightarrow>
               let s1 = s\<lparr>gameService := Some svc1, store := db1\<rparr>;
                   s2 = sendToBuzzer clk s1 bid
                          (ANSWER_RESULT questionId True (res_points r) (res_responseTime r));
                   s3 = sendToAngular clk s2
                          (BUZZ_VALIDATED bid True (res_points r) (res_responseTime r))
               in broadcastToBuzzers clk s3 (BUZZER_UNLOCKED gameId questionId)))"

text \<open>
  In \<open>handleBuzzReopen\<close> the two service calls are inside \<open>try\<close>; \<open>getExcludedPlayers\<close> is
  not, and when it throws (no such game) the handler ends there, nothing sent. The reason
  sent with \<open>BUZZER_EXCLUDED\<close> is "Mauvaise reponse", with its accent (code unit
  \<open>0xE9\<close>).
\<close>

definition handleBuzzReopen :: "clock \<Rightarrow> server \<Rightarrow> string \<Rightarrow> nat \<Rightarrow> jsval \<Rightarrow> server" where
  "handleBuzzReopen clk s gameId questionId bid =
     (let s1 = (case gameService s of
                  None \<Rightarrow> s
                | Some svc \<Rightarrow>
                    (case validateBuzz svc (store s) gameId questionId bid False of
                       Inl e \<Rightarrow> s
                     | Inr (svc1, db1, r) \<Rightarrow>
                         (case excludePlayer svc1 gameId questionId bid of
                            Inl e \<Rightarrow> s\<lparr>gameService := Some svc1, store := db1\<rparr>
                          | Inr svc2 \<Rightarrow> s\<lparr>gameService := Some svc2, store := db1\<rparr>)))
      in case (case gameService s1 of
                 None \<Rightarrow> Inr [bid]
               | Some svc \<Rightarrow> getExcludedPlayers svc gameId questionId) of
           Inl e \<Rightarrow> s1
         | Inr excludedPlayers \<Rightarrow>
             let s2 = fold (\<lambda>b acc.
                        if b \<notin> set excludedPlayers
                        then sendToBuzzer clk acc b (BUZZER_UNLOCKED gameId questionId)
                        else sendToBuzzer clk acc b
                               (BUZZER_EXCLUDED gameId questionId
                                  (''Mauvaise r'' @ [CHR 0xE9] @ ''ponse'')))
                        (map fst (buzzerClients s1)) s1
             in sendToAngular clk s2
                  (BUZZ_REOPENED excludedPlayers
                     (int (Map_size (buzzerClients s2)) - int (length excludedPlayers))))"

definition handleAngularMessage :: "clock \<Rightarrow> server \<Rightarrow> nat \<Rightarrow> message \<Rightarrow> server" where
  "handleAngularMessage clk s w m =
     (case m of
        REQUEST_BUZZER_LIST \<Rightarrow> sendBuzzerListToAngular clk s
      | PLAYER_RENAME bid newName \<Rightarrow> handlePlayerRename clk s bid newName
      | QUESTION_SEND gameId questionId \<Rightarrow> handleQuestionSend clk s gameId questionId
      | GAME_START gameId name totalQuestions \<Rightarrow>
          handleGameStart clk s gameId name totalQuestions
      | BUZZER_DISCONNECT bid \<Rightarrow> handleBuzzerForceDisconnect s bid
      | BUZZ_CORRECT gameId questionId bid \<Rightarrow> handleBuzzCorrect clk s gameId questionId bid
      | BUZZ_REOPEN gameId questionId bid \<Rightarrow> handleBuzzReopen clk s gameId questionId bid
      | JINGLE_PLAY bid jingleId \<Rightarrow> handleJinglePlay clk s bid jingleId
      | _ \<Rightarrow> s)"

subsection \<open>Buzzer messages\<close>

definition handleStatusUpdate ::
  "clock \<Rightarrow> server \<Rightarrow> jsval \<Rightarrow> jsval \<Rightarrow> jsval \<Rightarrow> jsval \<Rightarrow> server" where
  "handleStatusUpdate clk s bid bat rssi freeHeap =
     (let s1 = (case Map_get (buzzerClients s) bid of
                  Some (w, info) \<Rightarrow>
                    s\<lparr>buzzerClients :=
                        Map_set (buzzerClients s) bid (w, info\<lparr>battery := bat, wifiRSSI := rssi\<rparr>)\<rparr>
                | None \<Rightarrow> s)
      in sendToAngular clk s1 (BUZZER_STATUS_UPDATE bid bat rssi freeHeap))"

text \<open>
  \<open>handleMCQAnswer\<close> sends \<open>ANSWER_RESULT\<close> and \<open>ANSWER_RECEIVED\<close> with whatever result it
  holds: the one \<open>recordAnswer\<close> returned, or its initial one when there is no game service
  or the call threw.
\<close>

definition handleMCQAnswer ::
  "clock \<Rightarrow> server \<Rightarrow> jsval \<Rightarrow> string \<Rightarrow> nat \<Rightarrow> jsval \<Rightarrow> clientTimestamps option \<Rightarrow> server" where
  "handleMCQAnswer clk s bid gameId questionId answer ts =
     (let initial = \<lparr>res_isCorrect = False, res_points = 0, res_responseTime = Num 0,
                     duplicate = False\<rparr>;
          (s1, result) =
            (case gameService s of
               None \<Rightarrow> (s, initial)
             | Some svc \<Rightarrow>
                 (case recordAnswer clk (reads s) svc (store s) gameId questionId bid answer ts of
                    Inl e \<Rightarrow> (s, initial)
                  | Inr (svc1, db1, r, n1) \<Rightarrow>
                      (s\<lparr>gameService := Some svc1, store := db1, reads := n1\<rparr>, r)));
          s2 = sendToBuzzer clk s1 bid
                 (ANSWER_RESULT questionId (res_isCorrect result) (res_points result)
                    (res_responseTime result))
      in sendToAngular clk s2
           (ANSWER_RECEIVED bid questionId answer (res_isCorrect result) (res_points result)
              (res_responseTime result) ts))"

definition handleBuzzerBuzz ::
  "clock \<Rightarrow> server \<Rightarrow> jsval \<Rightarrow> string \<Rightarrow> nat \<Rightarrow> clientTimestamps option \<Rightarrow> server" where
  "handleBuzzerBuzz clk s bid gameId questionId ts =
     (case gameService s of
        None \<Rightarrow> s
      | Some svc \<Rightarrow>
          (case recordBuzz clk (reads s) svc gameId questionId bid ts of
             Inl e \<Rightarrow> s
           | Inr (svc1, r, n1) \<Rightarrow>
               let s1 = s\<lparr>gameService := Some svc1, reads := n1\<rparr>
               in (case r of
                     Ignored reason \<Rightarrow> sendToBuzzer clk s1 bid (BUZZ_IGNORED reason)
                   | Recorded _ _ _ _ \<Rightarrow> s1)))"

definition handleBuzzerMessage :: "clock \<Rightarrow> server \<Rightarrow> jsval \<Rightarrow> nat \<Rightarrow> message \<Rightarrow> server" where
  "handleBuzzerMessage clk s bid w m =
     (case m of
        TIME_SYNC_REQ t1 \<Rightarrow>
          let (t2, s1) = Date_now clk s;
              (t3, s2) = Date_now clk s1
          in sendToClient clk s2 w (TIME_SYNC_RES t1 t2 t3)
      | PING t_send \<Rightarrow>
          let (t_receive, s1) = Date_now clk s
          in sendToClient clk s1 w (PONG t_send t_receive)
      | STATUS_UPDATE bat rssi freeHeap \<Rightarrow> handleStatusUpdate clk s bid bat rssi freeHeap
      | ANSWER_MCQ gameId questionId answer ts \<Rightarrow>
          handleMCQAnswer clk s bid gameId questionId answer ts
      | ANSWER_BUZZER gameId questionId ts \<Rightarrow> handleBuzzerBuzz clk s bid gameId questionId ts
      | _ \<Rightarrow> s)"

subsection \<open>Routing\<close>

definition setSocket :: "server \<Rightarrow> nat \<Rightarrow> socket \<Rightarrow> server" where
  "setSocket s w sock = s\<lparr>sockets := (sockets s)(w := sock)\<rparr>"

definition routeMessage :: "clock \<Rightarrow> server \<Rightarrow> nat \<Rightarrow> message \<Rightarrow> server" where
  "routeMessage clk s w m =
     (if \<not> identified (sockets s w)
      then (case m of
              ANGULAR_CONNECT \<Rightarrow>
                handleAngularConnection clk
                  (setSocket s w ((sockets s w)\<lparr>identified := True, clientType := Some Angular\<rparr>))
                  w
            | BUZZER_REGISTER bid mac \<Rightarrow>
                handleBuzzerRegistration clk
                  (setSocket s w ((sockets s w)\<lparr>identified := True, clientType := Some Buzzer,
                                                socketBuzzerID := bid\<rparr>))
                  w bid mac
            | _ \<Rightarrow> handlePreIdentificationMessage clk s w m)
      else (case clientType (sockets s w) of
              Some Angular \<Rightarrow> handleAngularMessage clk s w m
            | Some Buzzer \<Rightarrow> handleBuzzerMessage clk s (socketBuzzerID (sockets s w)) w m
            | None \<Rightarrow> s))"

subsection \<open>The winner callback and the evaluation timer\<close>

text \<open>The function \<open>setDependencies\<close> installs as \<open>onBuzzWinner\<close>.\<close>

definition onBuzzWinnerCallback :: "clock \<Rightarrow> winner_call \<Rightarrow> server \<Rightarrow> server" where
  "onBuzzWinnerCallback clk call s =
     (case call of (gameId, questionId, winner) \<Rightarrow>
        let s1 = broadcastToBuzzers clk s (BUZZER_LOCKED gameId questionId (buzzerID winner));
            playerName = (case Map_get (buzzerClients s1) (buzzerID winner) of
                            Some (w, info) \<Rightarrow> JStr (bi_name info)
                          | None \<Rightarrow> buzzerID winner)
        in sendToAngular clk s1
             (BUZZ_WINNER (buzzerID winner) playerName questionId gameId (responseTime winner)))"

text \<open>
  The timer \<open>recordBuzz\<close> armed fires: \<open>evaluateBuzzes\<close> with the callback, then the timer
  handle of the game is cleared. An error of \<open>evaluateBuzzes\<close> is not caught.
\<close>

definition buzzEvaluationTimeout :: "clock \<Rightarrow> server \<Rightarrow> string \<Rightarrow> nat \<Rightarrow> error + server" where
  "buzzEvaluationTimeout clk s gameId questionId =
     (case gameService s of
        None \<Rightarrow> Inr s
      | Some svc \<Rightarrow>
          (case evaluateBuzzes svc gameId questionId of
             Inl e \<Rightarrow> Inl e
           | Inr (svc1, calls) \<Rightarrow>
               let s1 = fold (onBuzzWinnerCallback clk) calls (s\<lparr>gameService := Some svc1\<rparr>)
               in (case gameService s1 of
                     None \<Rightarrow> Inr s1
                   | Some svc2 \<Rightarrow>
                       (case getGame svc2 gameId of
                          Inl e \<Rightarrow> Inr s1
                        | Inr g \<Rightarrow>
                            Inr (s1\<lparr>gameService :=
                                   Some (putGame svc2 gameId
                                           (g\<lparr>buzzEvaluationTimer := None\<rparr>))\<rparr>)))))"

definition setDependencies :: "server \<Rightarrow> service \<Rightarrow> server" where
  "setDependencies s svc = s\<lparr>dbHandle := True, gameService := Some (svc\<lparr>onBuzzWinner := True\<rparr>)\<rparr>"

section \<open>Example runs of the server\<close>

definition closedSocket :: socket where
  "closedSocket =
     \<lparr>identified = False, clientType = None, socketBuzzerID = JUndefined, socketIp = [],
      readyState = CLOSED\<rparr>"

text \<open>The server as its constructor leaves it, in a process started in \<open>/srv/app\<close>.\<close>

definition initial_server :: server where
  "initial_server =
     \<lparr>sockets = (\<lambda>w. closedSocket), angularClient = None, buzzerClients = [],
      activeJingleStreams = [], streams = [], gameService = None, dbHandle = False,
      store = example_db, files = (\<lambda>p. None), cwd = ''/srv/app'', outbox = [], reads = 0\<rparr>"

text \<open>
  Scenario S4: two transports connect, both send \<open>BUZZER_REGISTER\<close> for buzzer X, and the
  \<open>close\<close> event of the second arrives.
\<close>

definition s4_connected :: server where
  "s4_connected = onConnection (onConnection initial_server 1 ''10.0.0.11'') 2 ''10.0.0.12''"

definition s4_first :: server where
  "s4_first = routeMessage example_clock s4_connected 1 (BUZZER_REGISTER (JStr ''X'') (Some ''AA:BB''))"

definition s4_second :: server where
  "s4_second = routeMessage example_clock s4_first 2 (BUZZER_REGISTER (JStr ''X'') (Some ''CC:DD''))"

definition s4_closed :: server where
  "s4_closed = onClose example_clock s4_second 2"

text \<open>
  A console on transport 1 and buzzer B1 on transport 2, the game at an MCQ question
  (number 1, correct answer 0); B1 answers it, then sends the same \<open>ANSWER_MCQ\<close> again.
\<close>

definition mcq_service :: service where
  "mcq_service =
     \<lparr>activeGames = [(''game_1'', example_game\<lparr>questionIds := [1, 2]\<rparr>)],
      onBuzzWinner = False\<rparr>"

definition mcq_connected :: server where
  "mcq_connected =
     onConnection (onConnection (setDependencies initial_server mcq_service) 1 ''10.0.0.2'')
       2 ''10.0.0.11''"

definition mcq_console :: server where
  "mcq_console = routeMessage example_clock mcq_connected 1 ANGULAR_CONNECT"

definition mcq_registered :: server where
  "mcq_registered =
     routeMessage example_clock mcq_console 2 (BUZZER_REGISTER (JStr ''B1'') (Some ''AA:BB''))"

definition mcq_answered :: server where
  "mcq_answered =
     routeMessage example_clock mcq_registered 2
       (ANSWER_MCQ ''game_1'' 1 (JNum 0) (syncedAt 1800))"

definition mcq_answered_again :: server where
  "mcq_answered_again =
     routeMessage example_clock mcq_answered 2
       (ANSWER_MCQ ''game_1'' 1 (JNum 0) (syncedAt 2500))"

text \<open>
  The same console and buzzer with a store of two jingle records: number 7 with a path
  inside the jingle directory, a file of 10000 bytes (scenario S5), and number 8 whose
  relative path climbs out of the working directory to \<open>/etc/passwd\<close>.
\<close>

definition s5_bytes :: "8 word list" where
  "s5_bytes = replicate 10000 0"

definition passwd_bytes :: "8 word list" where
  "passwd_bytes = [114, 111, 111, 116]"

definition jingle_server :: server where
  "jingle_server =
     mcq_registered
       \<lparr>store := example_db
          \<lparr>jingles := (\<lambda>i.
             if i = 7 then Some \<lparr>j_id = 7, j_name = ''Victory'',
                                 file_path = ''jingles/victory.mp3''\<rparr>
             else if i = 8 then Some \<lparr>j_id = 8, j_name = ''Leak'',
                                      file_path = ''../../etc/passwd''\<rparr>
             else None)\<rparr>,
        files := (\<lambda>p.
          if p = ''/srv/app/jingles/victory.mp3'' then Some s5_bytes
          else if p = ''/etc/passwd'' then Some passwd_bytes
          else None)\<rparr>"

definition traversal_started :: server where
  "traversal_started = handleJinglePlay example_clock jingle_server (JStr ''B1'') 8"

text \<open>
  What one transport was sent, in order, and a frame without the time stamp of its
  envelope: the payload of a text frame, or the bytes of a binary one.
\<close>

fun framesTo :: "nat \<Rightarrow> effect list \<Rightarrow> frame list" where
  "framesTo w [] = []"
| "framesTo w (Send w' f # es) = (if w' = w then f # framesTo w es else framesTo w es)"
| "framesTo w (Close w' code reason # es) = framesTo w es"

fun untimed :: "frame \<Rightarrow> payload + 8 word list" where
  "untimed (Text t pl) = Inl pl"
| "untimed (Binary bytes) = Inr bytes"


text \<open>The game the server's game service holds under an identifier, if any.\<close>

definition serverGame :: "server \<Rightarrow> string \<Rightarrow> game option" where
  "serverGame s gameId =
     (case gameService s of
        None \<Rightarrow> None
      | Some svc \<Rightarrow> (case getGame svc gameId of Inl e \<Rightarrow> None | Inr g \<Rightarrow> Some g))"

text \<open>
  Scenario S2 on the wire: a console on transport 1, B1 on transport 2 and B2 on transport
  3, the game service holding the game with the three pending buzzes. The evaluation timer
  fires; the console confirms the winner's answer (\<open>BUZZ_CORRECT\<close>); B1 buzzes again.
  And the other way from the election: the console reopens the buzzers against the winner
  (\<open>BUZZ_REOPEN\<close>); B1 buzzes again.
\<close>

definition lock_connected :: server where
  "lock_connected =
     onConnection
       (onConnection
          (onConnection (setDependencies initial_server s2_service) 1 ''10.0.0.2'')
          2 ''10.0.0.11'')
       3 ''10.0.0.12''"

definition lock_registered :: server where
  "lock_registered =
     routeMessage example_clock
       (routeMessage example_clock
          (routeMessage example_clock lock_connected 1 ANGULAR_CONNECT)
          2 (BUZZER_REGISTER (JStr ''B1'') (Some ''AA:BB'')))
       3 (BUZZER_REGISTER (JStr ''B2'') (Some ''AA:CC''))"

definition lock_elected :: server where
  "lock_elected =
     (case buzzEvaluationTimeout example_clock lock_registered ''game_1'' 2 of
        Inr s \<Rightarrow> s
      | Inl e \<Rightarrow> lock_registered)"

definition lock_validated :: server where
  "lock_validated =
     routeMessage example_clock lock_elected 1 (BUZZ_CORRECT ''game_1'' 2 (JStr ''B2''))"

definition lock_rebuzzed :: server where
  "lock_rebuzzed =
     routeMessage example_clock lock_validated 2 (ANSWER_BUZZER ''game_1'' 2 (syncedAt 9000))"

definition lock_reopened :: server where
  "lock_reopened =
     routeMessage example_clock lock_elected 1 (BUZZ_REOPEN ''game_1'' 2 (JStr ''B2''))"

definition lock_reopened_rebuzzed :: server where
  "lock_reopened_rebuzzed =
     routeMessage example_clock lock_reopened 2 (ANSWER_BUZZER ''game_1'' 2 (syncedAt 9000))"

section \<open>Sorting on keys that are numbers\<close>





lemma runLength_le: "runLength ord d prev rest \<le> length rest"
  by (induction rest arbitrary: prev) (simp_all add: Let_def)








text \<open>Whatever the comparison function, the result has the elements of the array.\<close>

lemma mset_insertPivot: "mset (insertPivot ord work pivot) = mset work + {#pivot#}"
proof -
  have "mset (take k work) + mset (drop k work) = mset work" for k
    by (metis append_take_drop_id mset_append)
  then show ?thesis by (simp add: insertPivot_def Let_def)
qed

lemma mset_BinaryInsertionSort:
  "mset (BinaryInsertionSort ord run rest) = mset run + mset rest"
  unfolding BinaryInsertionSort_def
  by (induction rest arbitrary: run) (simp_all add: mset_insertPivot)

lemma mset_CountAndMakeRun:
  "CountAndMakeRun ord xs = (run, rest) \<Longrightarrow> mset run + mset rest = mset xs"
proof -
  have "mset (take k ys) + mset (drop k ys) = mset ys" for k and ys :: "'a list"
    by (metis append_take_drop_id mset_append)
  then show "CountAndMakeRun ord xs = (run, rest) \<Longrightarrow> mset run + mset rest = mset xs"
    by (auto simp: CountAndMakeRun_def Let_def split: list.splits if_splits)
qed

lemma mset_Array_sort: "mset (Array_sort comparefn xs) = mset xs"
proof (cases "length xs < 2")
  case True
  then show ?thesis by (simp add: Array_sort_def)
next
  case False
  obtain run rest where r: "CountAndMakeRun (SortCompare comparefn) xs = (run, rest)"
    by (cases "CountAndMakeRun (SortCompare comparefn) xs") auto
  with False mset_CountAndMakeRun[OF r] show ?thesis
    by (simp add: Array_sort_def mset_BinaryInsertionSort)
qed

lemma set_Array_sort: "set (Array_sort comparefn xs) = set xs"
  using mset_Array_sort[of comparefn xs] by (rule mset_eq_setD)

section \<open>Response-time bounds\<close>

lemma answerResponseTime_num:
  "rawResponseTime clk n ts start = (Num raw, n1) \<Longrightarrow>
     answerResponseTime clk n ts start = (Num (max 0 (min 120000 raw)), n1)"
  by (simp add: answerResponseTime_def Let_def)

lemma buzzResponseTimeOf_num:
  "rawResponseTime clk n ts start = (Num raw, n1) \<Longrightarrow>
     buzzResponseTimeOf clk n ts start = (Num (max 0 raw), n1)"
  by (simp add: buzzResponseTimeOf_def)

lemma putGame_same: "getGame svc gameId = Inr g \<Longrightarrow> putGame svc gameId g = svc"
  by (auto simp: getGame_def putGame_def Map_get_def Map_set_def update_triv split: option.splits)

lemma getGame_putGame: "getGame (putGame svc gameId g) gameId = Inr g"
  by (simp add: getGame_def putGame_def Map_get_def Map_set_def update_conv')


lemma recordAnswer_duplicate:
  assumes "getGame svc gameId = Inr g" and "Map_has (currentQuestionAnswers g) bid"
  shows "recordAnswer clk n svc db gameId questionId bid answer ts =
           Inr (svc, db, \<lparr>res_isCorrect = False, res_points = 0, res_responseTime = Num 0,
                          duplicate = True\<rparr>, n)"
  using assms by (simp add: recordAnswer_def recordAnswer_game_def putGame_same)

lemma updatePlayer_answers:
  "currentQuestionAnswers (updatePlayer g bid pts ok rt) = currentQuestionAnswers g"
  by (simp add: updatePlayer_def split: option.splits)

lemma recordAnswer_game_fresh:
  assumes "\<not> Map_has (currentQuestionAnswers g) bid" and "questions db questionId = Some q"
    and "answerResponseTime clk n ts (questionStartTime g) = (rt, n1)"
  shows "\<exists>g' db' r. recordAnswer_game clk n db g gameId questionId bid answer ts
                       = Inr (g', db', r, Suc n1) \<and>
           \<not> duplicate r \<and> res_responseTime r = rt \<and>
           map_option a_responseTime (Map_get (currentQuestionAnswers g') bid) = Some rt"
  using assms
  by (simp add: recordAnswer_game_def Let_def updatePlayer_answers Map_get_def Map_set_def
      update_conv')

lemma recordBuzz_game_recorded:
  assumes "recordBuzz_game clk n g questionId bid ts = Inr (g', Recorded w p rt k, n')"
    and "buzzResponseTimeOf clk n ts (questionStartTime g) = (rt0, n1)"
  shows "rt = rt0 \<and> n' = Suc n1 \<and>
         (\<exists>bs. currentQuestionBuzzes g' = Some bs \<and> bs \<noteq> [] \<and> responseTime (last bs) = rt)"
  using assms
  by (auto simp: recordBuzz_game_def Let_def initBuzzTracking_def
      split: if_splits option.splits prod.splits)


lemma recordBuzz_unbounded:
  "\<exists>svc' k n'. recordBuzz clk n
      \<lparr>activeGames = [(gameId, createGame_gameState gameId [] [] example_settings
                                  \<lparr>questionStartTime := Some 1\<rparr>)],
       onBuzzWinner = False\<rparr> gameId questionId bid (syncedAt (\<bar>bound\<bar> + 2))
      = Inr (svc', Recorded False True (Num (\<bar>bound\<bar> + 1)) k, n')"
proof -
  have pos: "\<not> 1 + \<bar>bound\<bar> < 0" "\<bar>bound\<bar> + 2 \<noteq> 0" by arith+
  show ?thesis
    by (simp add: recordBuzz_def getGame_def Map_get_def recordBuzz_game_def Let_def
        buzzResponseTimeOf_def initBuzzTracking_def createGame_gameState_def Set_has_def
        rawResponseTime_def truthy_def syncedAt_def synced_def pos)
qed

text \<open>
  Claim C5, amended. Whenever the difference the response time starts from is a number
  (the synchronised timestamp, when it is used, converts to one): the response time
  \<open>recordAnswer\<close> returns and stores is that difference with values below 0 replaced by 0
  and values above 120000 by 120000, so it lies between 0 and 120000 (for a duplicate
  answer it is 0); the response time \<open>recordBuzz\<close> returns is the difference with values
  below 0 replaced by 0 and no other change, and it exceeds every bound for a suitable
  synchronised timestamp.
\<close>

theorem responseTime_clamping:
  assumes g: "getGame svc gameId = Inr g"
    and raw: "rawResponseTime clk n ts (questionStartTime g) = (Num raw, n1)"
  shows "(Map_has (currentQuestionAnswers g) bid \<longrightarrow>
            answerTimeOf (recordAnswer clk n svc db gameId questionId bid answer ts)
              = Some (Num 0))
       \<and> (\<not> Map_has (currentQuestionAnswers g) bid \<and> questions db questionId \<noteq> None \<longrightarrow>
            answerTimeOf (recordAnswer clk n svc db gameId questionId bid answer ts)
              = Some (Num (max 0 (min 120000 raw))) \<and>
            0 \<le> max 0 (min 120000 raw) \<and> max 0 (min 120000 raw) \<le> 120000 \<and>
            (\<exists>svc' db' r n' g'.
               recordAnswer clk n svc db gameId questionId bid answer ts = Inr (svc', db', r, n') \<and>
               getGame svc' gameId = Inr g' \<and>
               map_option a_responseTime (Map_get (currentQuestionAnswers g') bid)
                 = Some (Num (max 0 (min 120000 raw)))))
       \<and> (\<not> Map_has (currentQuestionAnswers g) bid \<and> questions db questionId = None \<longrightarrow>
            recordAnswer clk n svc db gameId questionId bid answer ts = Inl QuestionNotFound)
       \<and> (\<forall>svc' w p rt k n'.
            recordBuzz clk n svc gameId questionId bid ts = Inr (svc', Recorded w p rt k, n') \<longrightarrow>
            rt = Num (max 0 raw))
       \<and> (\<forall>bound. \<exists>svc0 ts0 svc1 rt0 k0 n0.
            recordBuzz clk n svc0 gameId questionId bid ts0
              = Inr (svc1, Recorded False True (Num rt0) k0, n0) \<and> bound < rt0)"
proof (intro conjI impI allI)
  assume "Map_has (currentQuestionAnswers g) bid"
  from recordAnswer_duplicate[OF g this]
  show "answerTimeOf (recordAnswer clk n svc db gameId questionId bid answer ts) = Some (Num 0)"
    by simp
next
  assume a: "\<not> Map_has (currentQuestionAnswers g) bid \<and> questions db questionId \<noteq> None"
  then obtain q where q: "questions db questionId = Some q" by auto
  from recordAnswer_game_fresh[OF _ q answerResponseTime_num[OF raw], of bid gameId answer] a
  obtain g' db' r where r: "recordAnswer_game clk n db g gameId questionId bid answer ts
                       = Inr (g', db', r, Suc n1)"
    and rt: "res_responseTime r = Num (max 0 (min 120000 raw))"
    and st: "map_option a_responseTime (Map_get (currentQuestionAnswers g') bid)
               = Some (Num (max 0 (min 120000 raw)))"
    by blast
  have call: "recordAnswer clk n svc db gameId questionId bid answer ts
                = Inr (putGame svc gameId g', db', r, Suc n1)"
    using g r by (simp add: recordAnswer_def)
  show "answerTimeOf (recordAnswer clk n svc db gameId questionId bid answer ts)
              = Some (Num (max 0 (min 120000 raw)))"
    using call rt by simp
  show "0 \<le> max 0 (min 120000 raw)" "max 0 (min 120000 raw) \<le> 120000" by simp_all
  show "\<exists>svc' db' r n' g'.
               recordAnswer clk n svc db gameId questionId bid answer ts = Inr (svc', db', r, n') \<and>
               getGame svc' gameId = Inr g' \<and>
               map_option a_responseTime (Map_get (currentQuestionAnswers g') bid)
                 = Some (Num (max 0 (min 120000 raw)))"
    using call st getGame_putGame[of svc gameId g'] by blast
next
  assume "\<not> Map_has (currentQuestionAnswers g) bid \<and> questions db questionId = None"
  then show "recordAnswer clk n svc db gameId questionId bid answer ts = Inl QuestionNotFound"
    using g by (simp add: recordAnswer_def recordAnswer_game_def)
next
  fix svc' w p rt k n'
  assume "recordBuzz clk n svc gameId questionId bid ts = Inr (svc', Recorded w p rt k, n')"
  then obtain g1 where "recordBuzz_game clk n g questionId bid ts = Inr (g1, Recorded w p rt k, n')"
    using g by (auto simp: recordBuzz_def split: sum.splits)
  from recordBuzz_game_recorded[OF this buzzResponseTimeOf_num[OF raw]]
  show "rt = Num (max 0 raw)" by simp
next
  fix bound :: int
  from recordBuzz_unbounded[of clk n gameId questionId bid bound]
  obtain svc' k n' where "recordBuzz clk n
      \<lparr>activeGames = [(gameId, createGame_gameState gameId [] [] example_settings
                                  \<lparr>questionStartTime := Some 1\<rparr>)],
       onBuzzWinner = False\<rparr> gameId questionId bid (syncedAt (\<bar>bound\<bar> + 2))
      = Inr (svc', Recorded False True (Num (\<bar>bound\<bar> + 1)) k, n')"
    by blast
  moreover have "bound < \<bar>bound\<bar> + 1" by simp
  ultimately show "\<exists>svc0 ts0 svc1 rt0 k0 n0.
            recordBuzz clk n svc0 gameId questionId bid ts0
              = Inr (svc1, Recorded False True (Num rt0) k0, n0) \<and> bound < rt0"
    by blast
qed

lemma example_raw:
  "rawResponseTime example_clock 0 (syncedAt t) (Some 1000) =
     (if t = 0 then (Num 4000, 1) else (Num (t - 1000), 0))"
  by (simp add: rawResponseTime_def syncedAt_def synced_def truthy_def example_clock_def)

theorem responseTime_clamping_witness:
  "answerTimeOf (recordAnswer example_clock 0 example_service example_db ''game_1'' 1
                   (JStr ''B1'') (JNum 0) (syncedAt 501000)) = Some (Num 120000) \<and>
   answerTimeOf (recordAnswer example_clock 0 example_service example_db ''game_1'' 1
                   (JStr ''B1'') (JNum 0) (syncedAt 900)) = Some (Num 0) \<and>
   answerTimeOf (recordAnswer example_clock 0 example_service example_db ''game_1'' 1
                   (JStr ''B1'') (JNum 0) (syncedAt 1500)) = Some (Num 500) \<and>
   answerTimeOf (recordAnswer example_clock 0 example_service example_db ''game_1'' 1
                   (JStr ''B1'') (JNum 0) None) = Some (Num 4000) \<and>
   buzzTimeOf (recordBuzz example_clock 0 example_service ''game_1'' 2 (JStr ''B1'')
                 (syncedAt 501000)) = Some (Num 500000) \<and>
   buzzTimeOf (recordBuzz example_clock 0 example_service ''game_1'' 2 (JStr ''B1'')
                 (syncedAt 900)) = Some (Num 0)"
proof -
  have g: "getGame example_service ''game_1'' = Inr example_game"
    by (simp add: getGame_def Map_get_def example_service_def)
  have st: "questionStartTime example_game = Some 1000"
    "\<not> Map_has (currentQuestionAnswers example_game) (JStr ''B1'')"
    "questions example_db 1 \<noteq> None"
    by (simp_all add: example_game_def Map_has_def example_db_def)
  have r0: "rawResponseTime example_clock 0 None (questionStartTime example_game) = (Num 4000, 1)"
    by (simp add: st rawResponseTime_def truthy_def example_clock_def)
  have rec: "\<exists>svc' rt k n'. recordBuzz example_clock 0 example_service ''game_1'' 2 (JStr ''B1'') ts
               = Inr (svc', Recorded False True rt k, n')" for ts
    by (simp add: recordBuzz_def g recordBuzz_game_def initBuzzTracking_def example_game_def
        Set_has_def Let_def split: prod.splits)
  have buzz: "buzzTimeOf (recordBuzz example_clock 0 example_service ''game_1'' 2 (JStr ''B1'')
                 (syncedAt t)) = Some (Num (max 0 raw))"
    if "rawResponseTime example_clock 0 (syncedAt t) (questionStartTime example_game) = (Num raw, n1)"
    for t raw n1
  proof -
    from rec[of "syncedAt t"] obtain svc' rt k n' where
      r: "recordBuzz example_clock 0 example_service ''game_1'' 2 (JStr ''B1'') (syncedAt t)
               = Inr (svc', Recorded False True rt k, n')" by blast
    from responseTime_clamping[OF g that, where bid="JStr ''B1''" and questionId=2] r
    have "rt = Num (max 0 raw)" by blast
    with r show ?thesis by simp
  qed
  from responseTime_clamping[OF g, where clk=example_clock and n=0 and ts="syncedAt 501000"
      and raw=500000 and ?n1.0=0 and bid="JStr ''B1''" and db=example_db and questionId=1
      and answer="JNum 0"] st example_raw[of 501000]
  have a: "answerTimeOf (recordAnswer example_clock 0 example_service example_db ''game_1'' 1
                   (JStr ''B1'') (JNum 0) (syncedAt 501000)) = Some (Num 120000)"
    by simp
  from responseTime_clamping[OF g, where clk=example_clock and n=0 and ts="syncedAt 900"
      and raw="- 100" and ?n1.0=0 and bid="JStr ''B1''" and db=example_db and questionId=1
      and answer="JNum 0"] st example_raw[of 900]
  have b: "answerTimeOf (recordAnswer example_clock 0 example_service example_db ''game_1'' 1
                   (JStr ''B1'') (JNum 0) (syncedAt 900)) = Some (Num 0)"
    by simp
  from responseTime_clamping[OF g, where clk=example_clock and n=0 and ts="syncedAt 1500"
      and raw=500 and ?n1.0=0 and bid="JStr ''B1''" and db=example_db and questionId=1
      and answer="JNum 0"] st example_raw[of 1500]
  have c: "answerTimeOf (recordAnswer example_clock 0 example_service example_db ''game_1'' 1
                   (JStr ''B1'') (JNum 0) (syncedAt 1500)) = Some (Num 500)"
    by simp
  from responseTime_clamping[OF g r0, where bid="JStr ''B1''" and db=example_db and questionId=1
      and answer="JNum 0"] st
  have d: "answerTimeOf (recordAnswer example_clock 0 example_service example_db ''game_1'' 1
                   (JStr ''B1'') (JNum 0) None) = Some (Num 4000)"
    by simp
  from buzz[of 501000 500000 0] example_raw[of 501000] st
  have e: "buzzTimeOf (recordBuzz example_clock 0 example_service ''game_1'' 2 (JStr ''B1'')
                 (syncedAt 501000)) = Some (Num 500000)" by simp
  from buzz[of 900 "- 100" 0] example_raw[of 900] st
  have f: "buzzTimeOf (recordBuzz example_clock 0 example_service ''game_1'' 2 (JStr ''B1'')
                 (syncedAt 900)) = Some (Num 0)" by simp
  from a b c d e f show ?thesis by simp
qed

text \<open>
  The claim as stated fails for a synchronised timestamp that does not convert to a
  number, here the string "soon": the difference is \<open>NaN\<close>, which neither comparison of
  the clamp catches, and \<open>NaN\<close> is the response time both calls return.
\<close>

theorem responseTime_nan_counterexample:
  "rawResponseTime example_clock 0 (synced (JStr ''soon'')) (Some 1000) = (NaN, 0) \<and>
   answerTimeOf (recordAnswer example_clock 0 example_service example_db ''game_1'' 1
                   (JStr ''B1'') (JNum 0) (synced (JStr ''soon''))) = Some NaN \<and>
   buzzTimeOf (recordBuzz example_clock 0 example_service ''game_1'' 2 (JStr ''B1'')
                 (synced (JStr ''soon''))) = Some NaN"
  by (simp add: rawResponseTime_def synced_def truthy_def StringToNumber_def trim_def
      isWhiteSpace_def isDigit_def recordAnswer_def recordBuzz_def getGame_def Map_get_def
      example_service_def example_game_def example_db_def recordAnswer_game_def
      recordBuzz_game_def initBuzzTracking_def Map_has_def Set_has_def Let_def
      answerResponseTime_def buzzResponseTimeOf_def)

section \<open>Electing the winner\<close>

lemma pendingBuzzes_iff:
  "i \<in> set (pendingBuzzes ex bs) \<longleftrightarrow> i < length bs \<and> eligible ex (bs ! i)"
  by (auto simp: pendingBuzzes_def)



lemma length_setProcessed [simp]: "length (setProcessed i bs) = length bs"
  by (simp add: setProcessed_def)

lemma length_fold_setProcessed [simp]: "length (fold setProcessed is bs) = length bs"
  by (induction "is" arbitrary: bs) simp_all

lemma nth_setProcessed:
  "j < length bs \<Longrightarrow>
     setProcessed i bs ! j = (if j = i then (bs ! j)\<lparr>processed := True\<rparr> else bs ! j)"
  by (simp add: setProcessed_def nth_list_update)











section \<open>Accepting and ignoring a buzz\<close>

lemma find_unprocessed_iff:
  "find (\<lambda>b. buzzerID b = bid \<and> \<not> processed b) bs \<noteq> None \<longleftrightarrow>
     (\<exists>b \<in> set bs. buzzerID b = bid \<and> \<not> processed b)"
  by (auto simp: find_None_iff)

lemma initBuzzTracking_tracked:
  "currentQuestionBuzzes g = Some bs \<Longrightarrow> initBuzzTracking g = g"
  by (simp add: initBuzzTracking_def)

text \<open>What \<open>recordBuzz\<close> does on a game whose buzz list and exclusion set exist.\<close>

lemma recordBuzz_game_tracked:
  assumes "currentQuestionBuzzes g = Some bs" and "currentQuestionExcluded g = Some ex"
    and "buzzResponseTimeOf clk n ts (questionStartTime g) = (rt, n1)"
  shows "recordBuzz_game clk n g questionId bid ts =
     (if Set_has ex bid then Inr (g, Ignored PlayerExcluded, n)
      else if \<exists>b \<in> set bs. buzzerID b = bid \<and> \<not> processed b
      then Inr (g, Ignored AlreadyBuzzed, n)
      else if buzzerLocked g then Inr (g, Ignored BuzzersLocked, n)
      else Inr (g\<lparr>currentQuestionBuzzes :=
                     Some (bs @ [\<lparr>buzzerID = bid, responseTime = rt, timestamps = ts,
                                  receivedAt = clk n1, processed = False\<rparr>]),
                   buzzEvaluationTimer :=
                     (case buzzEvaluationTimer g of None \<Rightarrow> Some questionId | Some t \<Rightarrow> Some t)\<rparr>,
                Recorded False True rt (length bs + 1), Suc n1))"
proof (cases "find (\<lambda>b. buzzerID b = bid \<and> \<not> processed b) bs")
  case None
  then have "\<not> (\<exists>b \<in> set bs. buzzerID b = bid \<and> \<not> processed b)"
    by (auto simp: find_None_iff)
  with None assms show ?thesis
    by (auto simp: recordBuzz_game_def initBuzzTracking_tracked Let_def split: option.splits)
next
  case (Some b)
  then have "\<exists>b \<in> set bs. buzzerID b = bid \<and> \<not> processed b"
    using find_unprocessed_iff[of bid bs] by simp
  with Some assms show ?thesis
    by (auto simp: recordBuzz_game_def initBuzzTracking_tracked Let_def)
qed

text \<open>
  What it does on a game that has no buzz list: the lazy initialisation replaces whatever
  exclusion set, winner and lock there were, and the buzz is recorded.
\<close>

lemma recordBuzz_game_untracked:
  assumes "currentQuestionBuzzes g = None"
    and "buzzResponseTimeOf clk n ts (questionStartTime g) = (rt, n1)"
  shows "recordBuzz_game clk n g questionId bid ts =
     Inr (g\<lparr>currentQuestionBuzzes :=
               Some [\<lparr>buzzerID = bid, responseTime = rt, timestamps = ts,
                      receivedAt = clk n1, processed = False\<rparr>],
             currentQuestionExcluded := Some [],
             currentQuestionWinner := JNull,
             buzzerLocked := False,
             buzzEvaluationTimer :=
               (case buzzEvaluationTimer g of None \<Rightarrow> Some questionId | Some t \<Rightarrow> Some t)\<rparr>,
          Recorded False True rt 1, Suc n1)"
  using assms
  by (simp add: recordBuzz_game_def initBuzzTracking_def Set_has_def Let_def
      split: option.splits)

text \<open>
  Claim C3, on a run. The console reopens the buzzers against B1 on a game that has no
  buzz list yet: \<open>excludePlayer\<close> creates the exclusion set with B1 in it, and
  \<open>getExcludedPlayers\<close> returns B1. B1 then buzzes: the lazy initialisation of
  \<open>recordBuzz\<close>, finding no buzz list, replaces the exclusion set by an empty one before
  the check that reads it, the buzz is recorded, nobody is excluded any more, and the
  evaluation elects B1. On the game of scenario S3, whose buzz list exists, the same check
  ignores the buzz of the excluded B2 and changes nothing.
\<close>

theorem recordBuzz_accepts_excluded:
  "excludePlayer fresh_service ''game_1'' 2 (JStr ''B1'') = Inr excluded_service \<and>
   getExcludedPlayers excluded_service ''game_1'' 2 = Inr [JStr ''B1''] \<and>
   recordBuzz example_clock 0 excluded_service ''game_1'' 2 (JStr ''B1'') None
     = Inr (rebuzzed_service, Recorded False True (Num 0) 1, 1) \<and>
   getExcludedPlayers rebuzzed_service ''game_1'' 2 = Inr [] \<and>
   map_sum id snd (evaluateBuzzes rebuzzed_service ''game_1'' 2)
     = Inr [(''game_1'', 2,
             \<lparr>buzzerID = JStr ''B1'', responseTime = Num 0, timestamps = None,
              receivedAt = 5000, processed = True\<rparr>)] \<and>
   getExcludedPlayers s3_service ''game_1'' 2 = Inr [JStr ''B2''] \<and>
   recordBuzz example_clock 0 s3_service ''game_1'' 2 (JStr ''B2'') None
     = Inr (s3_service, Ignored PlayerExcluded, 0)"
proof (intro conjI)
  show "excludePlayer fresh_service ''game_1'' 2 (JStr ''B1'') = Inr excluded_service"
    by (simp add: excludePlayer_def getGame_def putGame_def Map_get_def Map_set_def
        fresh_service_def excluded_service_def fresh_game_def createGame_gameState_def
        excludePlayer_game_def Set_add_def Let_def)
  show "getExcludedPlayers excluded_service ''game_1'' 2 = Inr [JStr ''B1'']"
    by (simp add: getExcludedPlayers_def getGame_def Map_get_def excluded_service_def
        getExcludedPlayers_game_def)
  show "recordBuzz example_clock 0 excluded_service ''game_1'' 2 (JStr ''B1'') None
     = Inr (rebuzzed_service, Recorded False True (Num 0) 1, 1)"
    by (simp add: recordBuzz_def getGame_def putGame_def Map_get_def Map_set_def
        excluded_service_def rebuzzed_service_def fresh_game_def createGame_gameState_def
        recordBuzz_game_def initBuzzTracking_def Set_has_def Let_def buzzResponseTimeOf_def
        rawResponseTime_def truthy_def example_clock_def)
  show "getExcludedPlayers rebuzzed_service ''game_1'' 2 = Inr []"
    by (simp add: getExcludedPlayers_def getGame_def Map_get_def rebuzzed_service_def
        getExcludedPlayers_game_def)
  show "map_sum id snd (evaluateBuzzes rebuzzed_service ''game_1'' 2)
     = Inr [(''game_1'', 2,
             \<lparr>buzzerID = JStr ''B1'', responseTime = Num 0, timestamps = None,
              receivedAt = 5000, processed = True\<rparr>)]"
    by (simp add: evaluateBuzzes_def getGame_def Map_get_def rebuzzed_service_def
        fresh_game_def createGame_gameState_def evaluateBuzzes_game_def pendingBuzzes_def
        eligible_def Set_has_def sortPending_def Array_sort_def setProcessed_def Let_def)
  have s3: "currentQuestionExcluded s3_game = Some [JStr ''B2'']"
    "currentQuestionBuzzes s3_game = Some (map (markEligible []) s2_buzzes)"
    by (simp_all add: s3_game_def excludePlayer_game_def s2_locked_game_def s2_game_def
        example_game_def Set_add_def Let_def)
  show "getExcludedPlayers s3_service ''game_1'' 2 = Inr [JStr ''B2'']"
    by (simp add: getExcludedPlayers_def getGame_def Map_get_def s3_service_def
        getExcludedPlayers_game_def s3)
  have rt: "buzzResponseTimeOf example_clock 0 None (questionStartTime s3_game) = (Num 4000, 1)"
    by (simp add: buzzResponseTimeOf_def rawResponseTime_def truthy_def example_clock_def
        s3_game_def excludePlayer_game_def s2_locked_game_def s2_game_def example_game_def
        Let_def)
  have "recordBuzz_game example_clock 0 s3_game 2 (JStr ''B2'') None
          = Inr (s3_game, Ignored PlayerExcluded, 0)"
    using recordBuzz_game_tracked[OF s3(2) s3(1) rt, where bid="JStr ''B2''" and questionId=2]
    by (simp add: Set_has_def)
  then show "recordBuzz example_clock 0 s3_service ''game_1'' 2 (JStr ''B2'') None
     = Inr (s3_service, Ignored PlayerExcluded, 0)"
    by (simp add: recordBuzz_def getGame_def putGame_def Map_get_def Map_set_def s3_service_def)
qed

section \<open>What validateBuzz changes\<close>

lemma updatePlayer_frame:
  "currentQuestionBuzzes (updatePlayer g bid pts ok rt) = currentQuestionBuzzes g"
  "currentQuestionExcluded (updatePlayer g bid pts ok rt) = currentQuestionExcluded g"
  "currentQuestionWinner (updatePlayer g bid pts ok rt) = currentQuestionWinner g"
  "buzzerLocked (updatePlayer g bid pts ok rt) = buzzerLocked g"
  by (simp_all add: updatePlayer_def split: option.splits)

lemma updatePlayer_stats_only:
  "case Map_get (players g) bid of
     None \<Rightarrow> updatePlayer g bid pts ok rt = g
   | Some pl \<Rightarrow>
       \<exists>s t c trt f sl.
         updatePlayer g bid pts ok rt =
           g\<lparr>players := Map_set (players g) bid
                (pl\<lparr>score := s, totalAnswers := t, correctAnswers := c,
                    totalResponseTime := trt, fastestResponseTime := f,
                    slowestResponseTime := sl\<rparr>)\<rparr>"
proof (cases "Map_get (players g) bid")
  case None
  then show ?thesis by (simp add: updatePlayer_def)
next
  case (Some pl)
  then have "updatePlayer g bid pts ok rt =
           g\<lparr>players := Map_set (players g) bid
                (pl\<lparr>score := score pl + pts, totalAnswers := totalAnswers pl + 1,
                    correctAnswers := (if ok then correctAnswers pl + 1 else correctAnswers pl),
                    totalResponseTime := num_add (totalResponseTime pl) rt,
                    fastestResponseTime :=
                      (case rt of
                         Num r \<Rightarrow> if lt_ext r (fastestResponseTime pl) then Finite r
                                  else fastestResponseTime pl
                       | NaN \<Rightarrow> fastestResponseTime pl),
                    slowestResponseTime :=
                      (case rt of
                         Num r \<Rightarrow> if r > slowestResponseTime pl then r
                                  else slowestResponseTime pl
                       | NaN \<Rightarrow> slowestResponseTime pl)\<rparr>)\<rparr>"
    by (simp add: updatePlayer_def updatePlayerStats_def)
  then have "\<exists>s t c trt f sl.
         updatePlayer g bid pts ok rt =
           g\<lparr>players := Map_set (players g) bid
                (pl\<lparr>score := s, totalAnswers := t, correctAnswers := c,
                    totalResponseTime := trt, fastestResponseTime := f,
                    slowestResponseTime := sl\<rparr>)\<rparr>"
    by blast
  with Some show ?thesis by simp
qed

lemma validateBuzz_game_fst:
  "\<exists>pts rt. fst (validateBuzz_game db g gameId questionId bid ok) = updatePlayer g bid pts ok rt"
  by (simp add: validateBuzz_game_def Let_def) blast

text \<open>
  Claim C10. Whatever \<open>isCorrect\<close> is, \<open>validateBuzz\<close> on an existing game leaves
  \<open>buzzerLocked\<close>, \<open>currentQuestionWinner\<close>, the exclusion set and the pending-buzz list
  (with its \<open>processed\<close> flags) as they were. The game changes at most in the entry of
  \<open>players\<close> for the buzzer, and there only in \<open>score\<close>, \<open>totalAnswers\<close>,
  \<open>correctAnswers\<close>, \<open>totalResponseTime\<close>, \<open>fastestResponseTime\<close> and
  \<open>slowestResponseTime\<close>; without such a player the game does not change at all.
\<close>

theorem validateBuzz_frame:
  assumes g: "getGame svc gameId = Inr g"
  shows "\<exists>g' db' r.
           validateBuzz svc db gameId questionId bid ok = Inr (putGame svc gameId g', db', r) \<and>
           getGame (putGame svc gameId g') gameId = Inr g' \<and>
           buzzerLocked g' = buzzerLocked g \<and>
           currentQuestionWinner g' = currentQuestionWinner g \<and>
           currentQuestionExcluded g' = currentQuestionExcluded g \<and>
           currentQuestionBuzzes g' = currentQuestionBuzzes g \<and>
           (case Map_get (players g) bid of
              None \<Rightarrow> g' = g
            | Some pl \<Rightarrow>
                \<exists>s t c trt f sl.
                  g' = g\<lparr>players := Map_set (players g) bid
                            (pl\<lparr>score := s, totalAnswers := t, correctAnswers := c,
                                totalResponseTime := trt, fastestResponseTime := f,
                                slowestResponseTime := sl\<rparr>)\<rparr>)"
proof -
  obtain g' db' r where v: "validateBuzz_game db g gameId questionId bid ok = (g', db', r)"
    by (cases "validateBuzz_game db g gameId questionId bid ok") auto
  with validateBuzz_game_fst[of db g gameId questionId bid ok]
  obtain pts rt where g': "g' = updatePlayer g bid pts ok rt" by auto
  have "validateBuzz svc db gameId questionId bid ok = Inr (putGame svc gameId g', db', r)"
    using g v by (simp add: validateBuzz_def)
  with g' updatePlayer_frame[of g bid pts ok rt] updatePlayer_stats_only[of g bid pts ok rt]
    getGame_putGame[of svc gameId g']
  show ?thesis by auto
qed

theorem validateBuzz_frame_witness:
  "getGame s2_locked_service ''game_1'' = Inr s2_locked_game \<and>
   (\<exists>g' db' r. validateBuzz s2_locked_service example_db ''game_1'' 2 (JStr ''B2'') True
        = Inr (putGame s2_locked_service ''game_1'' g', db', r) \<and>
      getGame (putGame s2_locked_service ''game_1'' g') ''game_1'' = Inr g' \<and>
      buzzerLocked g' \<and> currentQuestionWinner g' = JStr ''B2'' \<and>
      currentQuestionExcluded g' = Some [] \<and>
      currentQuestionBuzzes g' = Some (map (markEligible []) s2_buzzes))"
proof -
  have g: "getGame s2_locked_service ''game_1'' = Inr s2_locked_game"
    by (simp add: getGame_def Map_get_def s2_locked_service_def)
  have st: "buzzerLocked s2_locked_game" "currentQuestionWinner s2_locked_game = JStr ''B2''"
    "currentQuestionExcluded s2_locked_game = Some []"
    "currentQuestionBuzzes s2_locked_game = Some (map (markEligible []) s2_buzzes)"
    by (simp_all add: s2_locked_game_def s2_game_def example_game_def)
  from validateBuzz_frame[OF g, of example_db 2 "JStr ''B2''" True] st g
  show ?thesis by auto
qed

section \<open>The lock\<close>

lemma trackingConsistent_created:
  "trackingConsistent (createGame_gameState gameId name qids st)"
  by (simp add: trackingConsistent_def createGame_gameState_def)

lemma set_sortPending: "set (sortPending bs pend) = set pend"
  by (simp add: sortPending_def set_Array_sort)

lemma evaluateBuzzes_game_cases:
  assumes "evaluateBuzzes_game g = Inr (g', w)"
  shows "g' = g \<or>
    (\<not> buzzerLocked g \<and> buzzerLocked g' \<and>
     (\<exists>bs i. currentQuestionBuzzes g = Some bs \<and> i < length bs \<and>
        currentQuestionWinner g' = buzzerID (bs ! i)) \<and>
     currentQuestionBuzzes g' \<noteq> None \<and> currentQuestionExcluded g' = currentQuestionExcluded g \<and>
     currentQuestionExcluded g \<noteq> None)"
proof (cases "g' = g")
  case True
  then show ?thesis by simp
next
  case False
  with assms obtain bs ex i others where bs: "currentQuestionBuzzes g = Some bs"
    and ex: "currentQuestionExcluded g = Some ex" and ul: "\<not> buzzerLocked g"
    and srt: "sortPending bs (pendingBuzzes ex bs) = i # others"
    and g': "g' = g\<lparr>currentQuestionBuzzes := Some (fold setProcessed others (setProcessed i bs)),
                     currentQuestionWinner := buzzerID (setProcessed i bs ! i),
                     buzzerLocked := True\<rparr>"
    by (auto simp: evaluateBuzzes_game_def Let_def split: option.splits list.splits if_splits)
  from srt have "i \<in> set (pendingBuzzes ex bs)"
    using set_sortPending[of bs "pendingBuzzes ex bs"] by auto
  then have i: "i < length bs" by (simp add: pendingBuzzes_iff)
  then have "buzzerID (setProcessed i bs ! i) = buzzerID (bs ! i)"
    by (simp add: nth_setProcessed)
  with bs ex ul g' i show ?thesis by auto
qed

lemma recordAnswer_game_frame:
  assumes "recordAnswer_game clk n db g gameId q bid a ts = Inr (g', db', r, n')"
  shows "currentQuestionBuzzes g' = currentQuestionBuzzes g \<and>
         currentQuestionExcluded g' = currentQuestionExcluded g \<and>
         currentQuestionWinner g' = currentQuestionWinner g \<and>
         buzzerLocked g' = buzzerLocked g"
  using assms
  by (auto simp: recordAnswer_game_def Let_def updatePlayer_frame
      split: if_splits option.splits prod.splits)

lemma recordBuzz_game_lock:
  assumes "recordBuzz_game clk n g q bid ts = Inr (g', r, n')" and "trackingConsistent g"
  shows "trackingConsistent g' \<and> buzzerLocked g' = buzzerLocked g"
  using assms
  by (auto simp: recordBuzz_game_def initBuzzTracking_def Let_def trackingConsistent_def
      split: if_splits option.splits prod.splits)

lemma exec_lock:
  assumes e: "exec db g c = Inr g'" and inv: "trackingConsistent g"
  shows "trackingConsistent g' \<and>
    (buzzerLocked g \<and> \<not> buzzerLocked g' \<longrightarrow>
       (\<exists>bid. c = ExcludePlayer bid) \<or> (\<exists>clk n. c = GetCurrentQuestion clk n)) \<and>
    (\<not> buzzerLocked g \<and> buzzerLocked g' \<longrightarrow>
       (c = EvaluateBuzzes \<or> c = BuzzEvaluationTimeout) \<and>
       (\<exists>bs i. currentQuestionBuzzes g = Some bs \<and> i < length bs \<and>
          currentQuestionWinner g' = buzzerID (bs ! i)))"
proof (cases c)
  case (StartGame clk n)
  with e inv show ?thesis
    by (auto simp: startGame_game_def trackingConsistent_def split: if_splits)
next
  case (RegisterPlayer bid nm)
  with e inv show ?thesis by (auto simp: registerPlayer_game_def trackingConsistent_def)
next
  case (RenamePlayer bid nm)
  with e inv show ?thesis
    by (auto simp: renamePlayer_game_def trackingConsistent_def split: option.splits)
next
  case (GetCurrentQuestion clk n)
  with e inv show ?thesis
    by (auto simp: getCurrentQuestion_game_def trackingConsistent_def Let_def split: if_splits)
next
  case (RecordAnswer clk n q bid a ts)
  with e obtain db' r n' where
    "recordAnswer_game clk n db g (g_id g) q bid a ts = Inr (g', db', r, n')"
    by (cases "recordAnswer_game clk n db g (g_id g) q bid a ts") auto
  from recordAnswer_game_frame[OF this] inv RecordAnswer show ?thesis
    by (simp add: trackingConsistent_def)
next
  case (NextQuestion clk n)
  with e inv show ?thesis
    by (auto simp: nextQuestion_game_def endGame_game_def trackingConsistent_def Let_def
        split: if_splits)
next
  case (EndGame clk n)
  with e inv show ?thesis by (auto simp: endGame_game_def trackingConsistent_def)
next
  case (RecordBuzz clk n q bid ts)
  with e obtain r n' where "recordBuzz_game clk n g q bid ts = Inr (g', r, n')"
    by (cases "recordBuzz_game clk n g q bid ts") auto
  from recordBuzz_game_lock[OF this inv] RecordBuzz show ?thesis by simp
next
  case EvaluateBuzzes
  with e obtain w where "evaluateBuzzes_game g = Inr (g', w)"
    by (cases "evaluateBuzzes_game g") auto
  from evaluateBuzzes_game_cases[OF this] inv EvaluateBuzzes show ?thesis
    by (auto simp: trackingConsistent_def)
next
  case BuzzEvaluationTimeout
  with e obtain g1 w where ev: "evaluateBuzzes_game g = Inr (g1, w)"
    and g': "g' = g1\<lparr>buzzEvaluationTimer := None\<rparr>"
    by (auto simp: buzzEvaluationTimeout_game_def split: sum.splits)
  from evaluateBuzzes_game_cases[OF ev] inv g' BuzzEvaluationTimeout show ?thesis
    by (auto simp: trackingConsistent_def)
next
  case (ValidateBuzz q bid ok)
  with e validateBuzz_game_fst[of db g "g_id g" q bid ok] inv show ?thesis
    by (auto simp: updatePlayer_frame trackingConsistent_def)
next
  case (ExcludePlayer bid)
  with e inv show ?thesis
    by (auto simp: excludePlayer_game_def trackingConsistent_def Let_def)
qed

lemma reachable_trackingConsistent: "reachable g \<Longrightarrow> trackingConsistent g"
proof (induction rule: reachable.induct)
  case (created gameId name qids st)
  show ?case by (rule trackingConsistent_created)
next
  case (called g db c g')
  then show ?case using exec_lock by blast
qed

lemma locked_recordBuzz_game:
  assumes "trackingConsistent g" and "buzzerLocked g"
  shows "\<exists>reason. recordBuzz_game clk n g q bid ts = Inr (g, Ignored reason, n)"
proof -
  from assms obtain bs ex where t: "currentQuestionBuzzes g = Some bs"
    "currentQuestionExcluded g = Some ex"
    by (auto simp: trackingConsistent_def)
  obtain rt n1 where "buzzResponseTimeOf clk n ts (questionStartTime g) = (rt, n1)"
    by (cases "buzzResponseTimeOf clk n ts (questionStartTime g)") auto
  from recordBuzz_game_tracked[OF t this, of q bid] assms(2)
  show ?thesis by auto
qed

text \<open>
  What holds of the lock in every reachable game state. While \<open>buzzerLocked\<close> is set,
  every \<open>recordBuzz\<close> call is ignored and leaves the game as it is. A call that sets the
  lock is the evaluation of the buzzes, which stores the \<open>buzzerID\<close> of an entry of the
  list as the winner; a call that clears it is \<open>excludePlayer\<close>, which clears the winner
  too, or the reset of \<open>getCurrentQuestion\<close>. \<open>validateBuzz\<close> changes neither lock nor
  winner, whatever \<open>isCorrect\<close> is.
\<close>

lemma lock_changes:
  assumes r: "reachable g"
  shows "(buzzerLocked g \<longrightarrow>
            (\<forall>clk n q bid ts. \<exists>reason.
               recordBuzz_game clk n g q bid ts = Inr (g, Ignored reason, n)))
       \<and> (\<forall>db c g'. exec db g c = Inr g' \<longrightarrow>
            (buzzerLocked g \<and> \<not> buzzerLocked g' \<longrightarrow>
               (\<exists>bid. c = ExcludePlayer bid) \<or> (\<exists>clk n. c = GetCurrentQuestion clk n)) \<and>
            (\<not> buzzerLocked g \<and> buzzerLocked g' \<longrightarrow>
               (c = EvaluateBuzzes \<or> c = BuzzEvaluationTimeout) \<and>
               (\<exists>bs i. currentQuestionBuzzes g = Some bs \<and> i < length bs \<and>
                  currentQuestionWinner g' = buzzerID (bs ! i))))
       \<and> (\<forall>db gameId q bid ok.
            buzzerLocked (fst (validateBuzz_game db g gameId q bid ok)) = buzzerLocked g \<and>
            currentQuestionWinner (fst (validateBuzz_game db g gameId q bid ok))
              = currentQuestionWinner g)
       \<and> (\<forall>bid. \<not> buzzerLocked (excludePlayer_game g bid) \<and>
                 currentQuestionWinner (excludePlayer_game g bid) = JNull)"
proof -
  have inv: "trackingConsistent g" using r by (rule reachable_trackingConsistent)
  have a: "buzzerLocked g \<longrightarrow>
            (\<forall>clk n q bid ts. \<exists>reason.
               recordBuzz_game clk n g q bid ts = Inr (g, Ignored reason, n))"
    using locked_recordBuzz_game[OF inv] by blast
  have b: "\<forall>db c g'. exec db g c = Inr g' \<longrightarrow>
            (buzzerLocked g \<and> \<not> buzzerLocked g' \<longrightarrow>
               (\<exists>bid. c = ExcludePlayer bid) \<or> (\<exists>clk n. c = GetCurrentQuestion clk n)) \<and>
            (\<not> buzzerLocked g \<and> buzzerLocked g' \<longrightarrow>
               (c = EvaluateBuzzes \<or> c = BuzzEvaluationTimeout) \<and>
               (\<exists>bs i. currentQuestionBuzzes g = Some bs \<and> i < length bs \<and>
                  currentQuestionWinner g' = buzzerID (bs ! i)))"
    using exec_lock[OF _ inv] by blast
  have c: "\<forall>db gameId q bid ok.
            buzzerLocked (fst (validateBuzz_game db g gameId q bid ok)) = buzzerLocked g \<and>
            currentQuestionWinner (fst (validateBuzz_game db g gameId q bid ok))
              = currentQuestionWinner g"
  proof (intro allI)
    fix db gameId q bid ok
    from validateBuzz_game_fst[of db g gameId q bid ok]
    show "buzzerLocked (fst (validateBuzz_game db g gameId q bid ok)) = buzzerLocked g \<and>
            currentQuestionWinner (fst (validateBuzz_game db g gameId q bid ok))
              = currentQuestionWinner g"
      by (auto simp: updatePlayer_frame)
  qed
  have d: "\<forall>bid. \<not> buzzerLocked (excludePlayer_game g bid) \<and>
                 currentQuestionWinner (excludePlayer_game g bid) = JNull"
    by (simp add: excludePlayer_game_def Let_def)
  from a b c d show ?thesis by blast
qed

text \<open>The games of scenario S2 are reachable.\<close>

lemma example_game_reachable: "reachable example_game"
proof -
  let ?clk = "\<lambda>n::nat. if n = 0 then 900 else (1000::int)"
  let ?g0 = "createGame_gameState ''game_1'' ''Quiz'' [2, 1] example_settings"
  let ?g1 = "?g0\<lparr>status := Started, currentQuestionIndex := 0, startedAt := Some 900\<rparr>"
  let ?g2 = "registerPlayer_game ?g1 (JStr ''B1'') ''Alice''"
  let ?g3 = "registerPlayer_game ?g2 (JStr ''B2'') ''Bob''"
  let ?g4 = "registerPlayer_game ?g3 (JStr ''B3'') ''Carol''"
  have r0: "reachable ?g0" by (rule reachable.created)
  have "exec example_db ?g0 (StartGame ?clk 0) = Inr ?g1"
    by (simp add: startGame_game_def createGame_gameState_def)
  from reachable.called[OF r0 this] have r1: "reachable ?g1" .
  have "exec example_db ?g1 (RegisterPlayer (JStr ''B1'') ''Alice'') = Inr ?g2" by simp
  from reachable.called[OF r1 this] have r2: "reachable ?g2" .
  have "exec example_db ?g2 (RegisterPlayer (JStr ''B2'') ''Bob'') = Inr ?g3" by simp
  from reachable.called[OF r2 this] have r3: "reachable ?g3" .
  have "exec example_db ?g3 (RegisterPlayer (JStr ''B3'') ''Carol'') = Inr ?g4" by simp
  from reachable.called[OF r3 this] have r4: "reachable ?g4" .
  have "exec example_db ?g4 (GetCurrentQuestion ?clk 1) = Inr example_game"
    by (simp add: getCurrentQuestion_game_def registerPlayer_game_def createGame_gameState_def
        Map_set_def example_game_def Let_def)
  from reachable.called[OF r4 this] show ?thesis .
qed

lemma s2_game_reachable: "reachable s2_game"
proof -
  let ?b1 = "example_game\<lparr>currentQuestionBuzzes := Some (take 1 s2_buzzes),
               buzzEvaluationTimer := Some 2\<rparr>"
  let ?b2 = "example_game\<lparr>currentQuestionBuzzes := Some (take 2 s2_buzzes),
               buzzEvaluationTimer := Some 2\<rparr>"
  have "exec example_db example_game (RecordBuzz (\<lambda>n. 1530) 0 2 (JStr ''B1'') (syncedAt 1520))
          = Inr ?b1"
    by (simp add: recordBuzz_game_def initBuzzTracking_def example_game_def Set_has_def Let_def
        buzzResponseTimeOf_def rawResponseTime_def truthy_def syncedAt_def synced_def
        s2_buzzes_def)
  from reachable.called[OF example_game_reachable this] have r1: "reachable ?b1" .
  have "exec example_db ?b1 (RecordBuzz (\<lambda>n. 1540) 0 2 (JStr ''B2'') (syncedAt 1505)) = Inr ?b2"
    by (simp add: recordBuzz_game_def initBuzzTracking_def example_game_def Set_has_def Let_def
        buzzResponseTimeOf_def rawResponseTime_def truthy_def syncedAt_def synced_def
        s2_buzzes_def)
  from reachable.called[OF r1 this] have r2: "reachable ?b2" .
  have "exec example_db ?b2 (RecordBuzz (\<lambda>n. 1550) 0 2 (JStr ''B3'') (syncedAt 1540)) = Inr s2_game"
    by (simp add: recordBuzz_game_def initBuzzTracking_def example_game_def Set_has_def Let_def
        buzzResponseTimeOf_def rawResponseTime_def truthy_def syncedAt_def synced_def
        s2_buzzes_def s2_game_def)
  from reachable.called[OF r2 this] show ?thesis .
qed

lemma lock_registered_eval:
  "lock_registered =
     \<lparr>sockets = (\<lambda>w. closedSocket)
        (1 := \<lparr>identified = True, clientType = Some Angular, socketBuzzerID = JUndefined,
               socketIp = ''10.0.0.2'', readyState = OPEN\<rparr>,
         2 := \<lparr>identified = True, clientType = Some Buzzer, socketBuzzerID = JStr ''B1'',
               socketIp = ''10.0.0.11'', readyState = OPEN\<rparr>,
         3 := \<lparr>identified = True, clientType = Some Buzzer, socketBuzzerID = JStr ''B2'',
               socketIp = ''10.0.0.12'', readyState = OPEN\<rparr>),
      angularClient = Some 1,
      buzzerClients =
        [(JStr ''B1'', 2, \<lparr>bi_name = ''En attente de nom'', macAddress = ''AA:BB'',
                      connectedAt = 5004, playerNumber = 1, bi_ip = ''10.0.0.11'',
                      battery = JNull, wifiRSSI = JNull, latency = JNull\<rparr>),
         (JStr ''B2'', 3, \<lparr>bi_name = ''En attente de nom'', macAddress = ''AA:CC'',
                      connectedAt = 5008, playerNumber = 2, bi_ip = ''10.0.0.12'',
                      battery = JNull, wifiRSSI = JNull, latency = JNull\<rparr>)],
      activeJingleStreams = [], streams = [],
      gameService = Some s2_service, dbHandle = True,
      store = example_db, files = (\<lambda>p. None), cwd = ''/srv/app'',
      outbox =
        [Send 1 (Text 5002 (CONNECTED 5000 5001 10 ''1.0.0'')),
         Send 1 (Text 5003 (BUZZER_LIST_UPDATE [] 0)),
         Send 2 (Text 5006 (CONNECTION_ACK (JStr ''B1'') ''En attente de nom'' 5005 1)),
         Send 1 (Text 5007 (BUZZER_CONNECTED (JStr ''B1'') ''En attente de nom'' 5004 1)),
         Send 3 (Text 5010 (CONNECTION_ACK (JStr ''B2'') ''En attente de nom'' 5009 2)),
         Send 1 (Text 5011 (BUZZER_CONNECTED (JStr ''B2'') ''En attente de nom'' 5008 2))],
      reads = 12\<rparr>"
  by (simp add: lock_registered_def lock_connected_def setDependencies_def s2_service_def
      onConnection_def initial_server_def isOpen_def routeMessage_def
      handleAngularConnection_def sendBuzzerListToAngular_def
      handleBuzzerRegistration_def setSocket_def
      Map_has_def Map_size_def Map_set_def Date_now_def sendToClient_def
      sendToAngular_def Let_def example_clock_def fun_upd_twist)

lemma s2_evaluated:
  "evaluateBuzzes s2_service ''game_1'' 2 =
     Inr (\<lparr>activeGames = [(''game_1'', s2_locked_game\<lparr>buzzEvaluationTimer := Some 2\<rparr>)],
           onBuzzWinner = True\<rparr>,
          [(''game_1'', 2, (s2_buzzes ! 1)\<lparr>processed := True\<rparr>)])"
proof -
  have "pendingBuzzes [] s2_buzzes = [0, 1, 2]"
    by (simp add: pendingBuzzes_def s2_buzzes_def eligible_def Set_has_def upt_rec)
  moreover have "sortPending s2_buzzes [0, 1, 2] = [1, 0, 2]"
    by (simp add: sortPending_def s2_buzzes_def Array_sort_def CountAndMakeRun_def
        SortCompare_def BinaryInsertionSort_def insertPivot_def insertionPoint.simps Let_def)
  moreover have "fold setProcessed [0, 2] (setProcessed 1 s2_buzzes) = map (markEligible []) s2_buzzes"
    by (simp add: setProcessed_def s2_buzzes_def markEligible_def eligible_def Set_has_def)
  moreover have "buzzerID (setProcessed 1 s2_buzzes ! 1) = JStr ''B2''"
    "map (markEligible []) s2_buzzes ! 1 = (s2_buzzes ! 1)\<lparr>processed := True\<rparr>"
    by (simp_all add: setProcessed_def s2_buzzes_def markEligible_def eligible_def Set_has_def)
  ultimately show ?thesis
    by (simp add: evaluateBuzzes_def getGame_def putGame_def Map_get_def Map_set_def
        s2_service_def evaluateBuzzes_game_def s2_game_def example_game_def s2_locked_game_def
        Let_def)
qed

lemma lock_elected_eval:
  "lock_elected =
     lock_registered
       \<lparr>gameService := Some s2_locked_service,
        outbox := outbox lock_registered @
          [Send 2 (Text 5012 (BUZZER_LOCKED ''game_1'' 2 (JStr ''B2''))),
           Send 3 (Text 5013 (BUZZER_LOCKED ''game_1'' 2 (JStr ''B2''))),
           Send 1 (Text 5014
             (BUZZ_WINNER (JStr ''B2'') (JStr ''En attente de nom'') 2 ''game_1'' (Num 505)))],
        reads := 15\<rparr>"
  by (simp add: lock_elected_def buzzEvaluationTimeout_def lock_registered_eval s2_evaluated
      onBuzzWinnerCallback_def broadcastToBuzzers_def sendToBuzzer_def sendToAngular_def
      sendToClient_def isOpen_def Map_get_def Date_now_def getGame_def putGame_def Map_set_def
      s2_buzzes_def example_clock_def s2_locked_service_def s2_locked_game_def Let_def)

lemma s2_validated:
  "validateBuzz s2_locked_service example_db ''game_1'' 2 (JStr ''B2'') True =
     Inr (\<lparr>activeGames = [(''game_1'', s2_validated_game)], onBuzzWinner = True\<rparr>,
          example_db\<lparr>game_results :=
            [\<lparr>r_game_id = ''game_1'', r_question_id = 2, r_buzzer_id = JStr ''B2'',
              r_answer = JNum 0, r_is_correct = 1, r_response_time = Num 505,
              r_timestamp_local_action = JUndefined,
              r_timestamp_synced_action = JNum 1505, r_calibrated_latency = JUndefined,
              r_points = 15\<rparr>]\<rparr>,
          \<lparr>res_isCorrect = True, res_points = 15, res_responseTime = Num 505,
           duplicate = False\<rparr>)"
  by (simp add: validateBuzz_def getGame_def putGame_def Map_get_def Map_set_def
      s2_locked_service_def validateBuzz_game_def s2_validated_game_def s2_locked_game_def
      s2_game_def example_game_def example_db_def pointsOrDefault_def s2_buzzes_def
      markEligible_def eligible_def Set_has_def updatePlayer_def insertResult_def
      syncedAt_def synced_def Let_def)

lemma lock_validated_eval:
  "lock_validated =
     lock_elected
       \<lparr>gameService :=
          Some \<lparr>activeGames = [(''game_1'', s2_validated_game)], onBuzzWinner = True\<rparr>,
        store := example_db\<lparr>game_results :=
            [\<lparr>r_game_id = ''game_1'', r_question_id = 2, r_buzzer_id = JStr ''B2'',
              r_answer = JNum 0, r_is_correct = 1, r_response_time = Num 505,
              r_timestamp_local_action = JUndefined,
              r_timestamp_synced_action = JNum 1505, r_calibrated_latency = JUndefined,
              r_points = 15\<rparr>]\<rparr>,
        outbox := outbox lock_elected @
          [Send 3 (Text 5015 (ANSWER_RESULT 2 True 15 (Num 505))),
           Send 1 (Text 5016 (BUZZ_VALIDATED (JStr ''B2'') True 15 (Num 505))),
           Send 2 (Text 5017 (BUZZER_UNLOCKED ''game_1'' 2)),
           Send 3 (Text 5018 (BUZZER_UNLOCKED ''game_1'' 2))],
        reads := 19\<rparr>"
  by (simp add: lock_validated_def lock_elected_eval lock_registered_eval routeMessage_def
      handleAngularMessage_def handleBuzzCorrect_def s2_validated broadcastToBuzzers_def
      sendToBuzzer_def sendToAngular_def sendToClient_def isOpen_def Map_get_def Date_now_def
      example_clock_def Let_def)

lemma s2_validated_locked:
  "recordBuzz clk n \<lparr>activeGames = [(''game_1'', s2_validated_game)], onBuzzWinner = True\<rparr>
     ''game_1'' 2 (JStr ''B1'') ts =
   Inr (\<lparr>activeGames = [(''game_1'', s2_validated_game)], onBuzzWinner = True\<rparr>,
        Ignored BuzzersLocked, n)"
  by (simp add: recordBuzz_def getGame_def putGame_def Map_get_def Map_set_def
      recordBuzz_game_def initBuzzTracking_def s2_validated_game_def
      s2_locked_game_def s2_game_def example_game_def s2_buzzes_def markEligible_def
      eligible_def Set_has_def Let_def)

lemma lock_rebuzzed_eval:
  "lock_rebuzzed =
     lock_validated
       \<lparr>outbox := outbox lock_validated @ [Send 2 (Text 5019 (BUZZ_IGNORED BuzzersLocked))],
        reads := 20\<rparr>"
  by (simp add: lock_rebuzzed_def lock_validated_eval lock_elected_eval lock_registered_eval
      routeMessage_def handleBuzzerMessage_def handleBuzzerBuzz_def s2_validated_locked
      sendToBuzzer_def sendToClient_def isOpen_def Map_get_def Date_now_def
      example_clock_def Let_def)


lemma s2_timeout: "exec example_db s2_game BuzzEvaluationTimeout = Inr s2_locked_game"
  using s2_evaluated
  by (auto simp: evaluateBuzzes_def getGame_def putGame_def Map_get_def Map_set_def
      s2_service_def buzzEvaluationTimeout_game_def s2_locked_game_def
      split: sum.splits prod.splits option.splits)

lemma s2_locked_game_reachable: "reachable s2_locked_game"
  using reachable.called[OF s2_game_reachable s2_timeout] .


lemmas reopen_defs =
  routeMessage_def handleAngularMessage_def handleBuzzReopen_def handleBuzzerMessage_def
  handleBuzzerBuzz_def validateBuzz_def excludePlayer_def getExcludedPlayers_def
  recordBuzz_def getGame_def putGame_def Map_get_def Map_set_def Map_size_def
  s2_locked_service_def validateBuzz_game_def s2_locked_game_def s2_game_def example_game_def
  example_db_def pointsOrDefault_def s2_buzzes_def markEligible_def eligible_def Set_has_def
  Set_add_def updatePlayer_def insertResult_def syncedAt_def synced_def
  excludePlayer_game_def getExcludedPlayers_game_def recordBuzz_game_def
  initBuzzTracking_def buzzResponseTimeOf_def rawResponseTime_def truthy_def
  sendToBuzzer_def sendToAngular_def sendToClient_def isOpen_def Date_now_def
  example_clock_def serverGame_def Let_def

text \<open>
  Claim C6, on a run. In scenario S2 the evaluation timer fires: the game is locked with
  B2 as winner, and B1 and B2 are sent \<open>BUZZER_LOCKED\<close>. The console confirms B2's answer
  with \<open>BUZZ_CORRECT\<close>: \<open>handleBuzzCorrect\<close> calls \<open>validateBuzz\<close> and broadcasts
  \<open>BUZZER_UNLOCKED\<close>, but \<open>validateBuzz\<close> leaves \<open>buzzerLocked\<close> set, so the game is
  still locked and B1, told that the buzzers are unlocked, has its next buzz ignored with
  the reason "Buzzers verrouilles". From the same election, \<open>BUZZ_REOPEN\<close> goes through
  \<open>excludePlayer\<close>, which clears the lock: B1 is sent the same \<open>BUZZER_UNLOCKED\<close> and
  its next buzz is recorded.
\<close>

theorem buzz_correct_leaves_lock:
  "map_option buzzerLocked (serverGame lock_elected ''game_1'') = Some True \<and>
   map_option currentQuestionWinner (serverGame lock_elected ''game_1'') = Some (JStr ''B2'') \<and>
   map untimed (framesTo 2 (outbox lock_validated)) =
     [Inl (CONNECTION_ACK (JStr ''B1'') ''En attente de nom'' 5005 1),
      Inl (BUZZER_LOCKED ''game_1'' 2 (JStr ''B2'')),
      Inl (BUZZER_UNLOCKED ''game_1'' 2)] \<and>
   serverGame lock_validated ''game_1'' = Some s2_validated_game \<and>
   buzzerLocked s2_validated_game \<and>
   map untimed (framesTo 2 (outbox lock_rebuzzed)) =
     [Inl (CONNECTION_ACK (JStr ''B1'') ''En attente de nom'' 5005 1),
      Inl (BUZZER_LOCKED ''game_1'' 2 (JStr ''B2'')),
      Inl (BUZZER_UNLOCKED ''game_1'' 2),
      Inl (BUZZ_IGNORED BuzzersLocked)] \<and>
   serverGame lock_rebuzzed ''game_1'' = Some s2_validated_game \<and>
   map untimed (framesTo 2 (outbox lock_reopened)) =
     [Inl (CONNECTION_ACK (JStr ''B1'') ''En attente de nom'' 5005 1),
      Inl (BUZZER_LOCKED ''game_1'' 2 (JStr ''B2'')),
      Inl (BUZZER_UNLOCKED ''game_1'' 2)] \<and>
   map_option buzzerLocked (serverGame lock_reopened ''game_1'') = Some False \<and>
   map untimed (framesTo 2 (outbox lock_reopened_rebuzzed)) =
     [Inl (CONNECTION_ACK (JStr ''B1'') ''En attente de nom'' 5005 1),
      Inl (BUZZER_LOCKED ''game_1'' 2 (JStr ''B2'')),
      Inl (BUZZER_UNLOCKED ''game_1'' 2)] \<and>
   map_option (\<lambda>g. map_option last (currentQuestionBuzzes g))
       (serverGame lock_reopened_rebuzzed ''game_1'') =
     Some (Some \<lparr>buzzerID = JStr ''B1'', responseTime = Num 8000, timestamps = syncedAt 9000,
                 receivedAt = 5018, processed = False\<rparr>)"
proof (intro conjI)
  show "map_option buzzerLocked (serverGame lock_elected ''game_1'') = Some True"
    "map_option currentQuestionWinner (serverGame lock_elected ''game_1'') = Some (JStr ''B2'')"
    by (simp_all add: lock_elected_eval serverGame_def getGame_def Map_get_def
        s2_locked_service_def s2_locked_game_def)
  show "map untimed (framesTo 2 (outbox lock_validated)) =
     [Inl (CONNECTION_ACK (JStr ''B1'') ''En attente de nom'' 5005 1),
      Inl (BUZZER_LOCKED ''game_1'' 2 (JStr ''B2'')),
      Inl (BUZZER_UNLOCKED ''game_1'' 2)]"
    by (simp add: lock_validated_eval lock_elected_eval lock_registered_eval)
  show "serverGame lock_validated ''game_1'' = Some s2_validated_game"
    by (simp add: lock_validated_eval serverGame_def getGame_def Map_get_def)
  show "buzzerLocked s2_validated_game"
    by (simp add: s2_validated_game_def s2_locked_game_def)
  show "map untimed (framesTo 2 (outbox lock_rebuzzed)) =
     [Inl (CONNECTION_ACK (JStr ''B1'') ''En attente de nom'' 5005 1),
      Inl (BUZZER_LOCKED ''game_1'' 2 (JStr ''B2'')),
      Inl (BUZZER_UNLOCKED ''game_1'' 2),
      Inl (BUZZ_IGNORED BuzzersLocked)]"
    by (simp add: lock_rebuzzed_eval lock_validated_eval lock_elected_eval lock_registered_eval)
  show "serverGame lock_rebuzzed ''game_1'' = Some s2_validated_game"
    by (simp add: lock_rebuzzed_eval lock_validated_eval serverGame_def getGame_def Map_get_def)
  show "map untimed (framesTo 2 (outbox lock_reopened)) =
     [Inl (CONNECTION_ACK (JStr ''B1'') ''En attente de nom'' 5005 1),
      Inl (BUZZER_LOCKED ''game_1'' 2 (JStr ''B2'')),
      Inl (BUZZER_UNLOCKED ''game_1'' 2)]"
    by (simp add: lock_reopened_def lock_elected_eval lock_registered_eval reopen_defs)
  show "map_option buzzerLocked (serverGame lock_reopened ''game_1'') = Some False"
    by (simp add: lock_reopened_def lock_elected_eval lock_registered_eval reopen_defs)
  show "map untimed (framesTo 2 (outbox lock_reopened_rebuzzed)) =
     [Inl (CONNECTION_ACK (JStr ''B1'') ''En attente de nom'' 5005 1),
      Inl (BUZZER_LOCKED ''game_1'' 2 (JStr ''B2'')),
      Inl (BUZZER_UNLOCKED ''game_1'' 2)]"
    by (simp add: lock_reopened_rebuzzed_def lock_reopened_def lock_elected_eval
        lock_registered_eval reopen_defs)
  show "map_option (\<lambda>g. map_option last (currentQuestionBuzzes g))
       (serverGame lock_reopened_rebuzzed ''game_1'') =
     Some (Some \<lparr>buzzerID = JStr ''B1'', responseTime = Num 8000, timestamps = syncedAt 9000,
                 receivedAt = 5018, processed = False\<rparr>)"
    by (simp add: lock_reopened_rebuzzed_def lock_reopened_def lock_elected_eval
        lock_registered_eval reopen_defs)
qed

section \<open>Time synchronisation\<close>


lemma sendToClient_not_open: "\<not> isOpen s w \<Longrightarrow> sendToClient clk s w pl = s"
  by (simp add: sendToClient_def)

lemma timeSync_reply:
  assumes "isOpen s w"
  shows "(let (t2, s1) = Date_now clk s; (t3, s2) = Date_now clk s1
          in sendToClient clk s2 w (TIME_SYNC_RES t1 t2 t3)) =
         s\<lparr>reads := reads s + 3,
           outbox := outbox s @
             [Send w (Text (clk (reads s + 2))
                        (TIME_SYNC_RES t1 (clk (reads s)) (clk (reads s + 1))))]\<rparr>"
  using assms by (simp add: Date_now_def sendToClient_def isOpen_def)

lemma timeSync_no_reply:
  assumes "\<not> isOpen s w"
  shows "(let (t2, s1) = Date_now clk s; (t3, s2) = Date_now clk s1
          in sendToClient clk s2 w (TIME_SYNC_RES t1 t2 t3)) = s\<lparr>reads := reads s + 2\<rparr>"
  using assms by (simp add: Date_now_def sendToClient_def isOpen_def)

text \<open>
  Claim C9, amended. A \<open>TIME_SYNC_REQ\<close> carrying \<open>T1\<close> arrives on a transport that is
  not identified yet or is an identified buzzer. When the transport is open, it gets exactly
  one frame in reply, a \<open>TIME_SYNC_RES\<close> whose \<open>T1\<close> is the received value and whose
  \<open>T2\<close> and \<open>T3\<close> are the next two readings of the server clock, and nothing else
  changes. When the transport is not open (it is closing or closed), the two readings are
  taken and nothing is sent to anyone.
\<close>

theorem time_sync_echo:
  assumes "\<not> identified (sockets s w) \<or> clientType (sockets s w) = Some Buzzer"
  shows "(isOpen s w \<longrightarrow>
            routeMessage clk s w (TIME_SYNC_REQ t1) =
              s\<lparr>reads := reads s + 3,
                outbox := outbox s @
                  [Send w (Text (clk (reads s + 2))
                             (TIME_SYNC_RES t1 (clk (reads s)) (clk (reads s + 1))))]\<rparr>)
         \<and> (\<not> isOpen s w \<longrightarrow>
              routeMessage clk s w (TIME_SYNC_REQ t1) = s\<lparr>reads := reads s + 2\<rparr>)
         \<and> T1 (handleTimeSyncRequest t1 now1 now2) = t1
         \<and> T2 (handleTimeSyncRequest t1 now1 now2) = now1
         \<and> T3 (handleTimeSyncRequest t1 now1 now2) = now2"
  using assms timeSync_reply[of s w clk t1] timeSync_no_reply[of s w clk t1]
  by (auto simp: routeMessage_def handlePreIdentificationMessage_def handleBuzzerMessage_def
      handleTimeSyncRequest_def)

theorem time_sync_echo_witness:
  "isOpen s4_connected 1 \<and> \<not> identified (sockets s4_connected 1) \<and>
   outbox (routeMessage example_clock s4_connected 1 (TIME_SYNC_REQ (JNum 123456)))
     = [Send 1 (Text 5002 (TIME_SYNC_RES (JNum 123456) 5000 5001))] \<and>
   isOpen s4_first 1 \<and> clientType (sockets s4_first 1) = Some Buzzer \<and>
   socketBuzzerID (sockets s4_first 1) = JStr ''X'' \<and>
   outbox (routeMessage example_clock s4_first 1 (TIME_SYNC_REQ (JNum 123456)))
     = outbox s4_first @ [Send 1 (Text 5005 (TIME_SYNC_RES (JNum 123456) 5003 5004))] \<and>
   \<not> isOpen (identificationTimeout s4_connected 2) 2 \<and>
   \<not> identified (sockets (identificationTimeout s4_connected 2) 2) \<and>
   outbox (routeMessage example_clock (identificationTimeout s4_connected 2) 2
             (TIME_SYNC_REQ (JNum 123456)))
     = [Close 2 4001 ''Identification timeout'']"
proof -
  have a: "isOpen s4_connected 1" "\<not> identified (sockets s4_connected 1)"
    "outbox s4_connected = []" "reads s4_connected = 0"
    by (simp_all add: s4_connected_def onConnection_def initial_server_def isOpen_def)
  have b: "isOpen s4_first 1" "clientType (sockets s4_first 1) = Some Buzzer"
    "socketBuzzerID (sockets s4_first 1) = JStr ''X''" "reads s4_first = 3"
    by (simp_all add: s4_first_def s4_connected_def onConnection_def initial_server_def
        isOpen_def routeMessage_def handleBuzzerRegistration_def setSocket_def Map_has_def
        Map_size_def Map_set_def Date_now_def sendToClient_def sendToAngular_def Let_def)
  from time_sync_echo[of s4_connected 1 example_clock "JNum 123456"] a
  have "outbox (routeMessage example_clock s4_connected 1 (TIME_SYNC_REQ (JNum 123456)))
     = [Send 1 (Text 5002 (TIME_SYNC_RES (JNum 123456) 5000 5001))]"
    by (simp add: example_clock_def)
  moreover
  from time_sync_echo[of s4_first 1 example_clock "JNum 123456"] b
  have "outbox (routeMessage example_clock s4_first 1 (TIME_SYNC_REQ (JNum 123456)))
     = outbox s4_first @ [Send 1 (Text 5005 (TIME_SYNC_RES (JNum 123456) 5003 5004))]"
    by (simp add: example_clock_def)
  moreover
  have c: "\<not> isOpen (identificationTimeout s4_connected 2) 2"
    "\<not> identified (sockets (identificationTimeout s4_connected 2) 2)"
    "outbox (identificationTimeout s4_connected 2) = [Close 2 4001 ''Identification timeout'']"
    by (simp_all add: identificationTimeout_def wsClose_def s4_connected_def onConnection_def
        initial_server_def isOpen_def)
  from time_sync_echo[of "identificationTimeout s4_connected 2" 2 example_clock "JNum 123456"] c
  have "outbox (routeMessage example_clock (identificationTimeout s4_connected 2) 2
             (TIME_SYNC_REQ (JNum 123456)))
     = [Close 2 4001 ''Identification timeout'']"
    by simp
  ultimately show ?thesis using a b c by simp
qed

text \<open>
  The claim as stated fails on a transport that is not open. In scenario S4 the second
  transport, rejected as a duplicate of X, is an identified buzzer whose closing handshake
  has started; a \<open>TIME_SYNC_REQ\<close> it sends before the handshake ends gets no reply: the
  frames sent to it stay the rejection alone.
\<close>

theorem time_sync_closing_counterexample:
  "identified (sockets s4_second 2) \<and> clientType (sockets s4_second 2) = Some Buzzer \<and>
   readyState (sockets s4_second 2) = CLOSING \<and>
   outbox (routeMessage example_clock s4_second 2 (TIME_SYNC_REQ (JNum 123456)))
     = outbox s4_second \<and>
   framesTo 2 (outbox (routeMessage example_clock s4_second 2 (TIME_SYNC_REQ (JNum 123456))))
     = [Text 5003 (CONNECTION_REJECTED ''Buzzer ID already connected'')]"
  by (simp add: s4_second_def s4_first_def s4_connected_def onConnection_def
      initial_server_def isOpen_def routeMessage_def handleBuzzerRegistration_def setSocket_def
      Map_has_def Map_size_def Map_set_def Date_now_def sendToClient_def
      sendToAngular_def wsClose_def handleBuzzerMessage_def Let_def example_clock_def)

section \<open>Duplicate registration\<close>

text \<open>
  Claim C2, on scenario S4. The first registration of X is acknowledged with player
  number 1, the second transport gets \<open>CONNECTION_REJECTED\<close> and is closed with 4002, and
  the registry still holds the first buzzer then. When the \<open>close\<close> event of the rejected
  transport is handled, \<open>handleDisconnection\<close> deletes the key X, which the rejected
  transport carries in \<open>_buzzerID\<close>: the registry is empty, against the claim.
\<close>

theorem duplicate_registration_drops_first:
  "outbox s4_first =
     [Send 1 (Text 5002 (CONNECTION_ACK (JStr ''X'') ''En attente de nom'' 5001 1))] \<and>
   map (\<lambda>(bid, w, info). (bid, w, playerNumber info)) (buzzerClients s4_first)
     = [(JStr ''X'', 1, 1)] \<and>
   outbox s4_second = outbox s4_first @
     [Send 2 (Text 5003 (CONNECTION_REJECTED ''Buzzer ID already connected'')),
      Close 2 4002 ''Duplicate buzzer ID''] \<and>
   buzzerClients s4_second = buzzerClients s4_first \<and>
   buzzerClients s4_closed = []"
  by (simp add: s4_closed_def s4_second_def s4_first_def s4_connected_def onConnection_def
      initial_server_def isOpen_def routeMessage_def handleBuzzerRegistration_def setSocket_def
      Map_has_def Map_size_def Map_set_def Map_delete_def Date_now_def sendToClient_def
      sendToAngular_def wsClose_def onClose_def handleDisconnection_def Let_def
      example_clock_def)


section \<open>Duplicate answers\<close>

lemma mcq_registered_eval:
  "mcq_registered =
     \<lparr>sockets = (\<lambda>w. closedSocket)
        (1 := \<lparr>identified = True, clientType = Some Angular, socketBuzzerID = JUndefined,
               socketIp = ''10.0.0.2'', readyState = OPEN\<rparr>,
         2 := \<lparr>identified = True, clientType = Some Buzzer, socketBuzzerID = JStr ''B1'',
               socketIp = ''10.0.0.11'', readyState = OPEN\<rparr>),
      angularClient = Some 1,
      buzzerClients =
        [(JStr ''B1'', 2, \<lparr>bi_name = ''En attente de nom'', macAddress = ''AA:BB'',
                      connectedAt = 5004, playerNumber = 1, bi_ip = ''10.0.0.11'',
                      battery = JNull, wifiRSSI = JNull, latency = JNull\<rparr>)],
      activeJingleStreams = [], streams = [],
      gameService = Some (mcq_service\<lparr>onBuzzWinner := True\<rparr>), dbHandle = True,
      store = example_db, files = (\<lambda>p. None), cwd = ''/srv/app'',
      outbox =
        [Send 1 (Text 5002 (CONNECTED 5000 5001 10 ''1.0.0'')),
         Send 1 (Text 5003 (BUZZER_LIST_UPDATE [] 0)),
         Send 2 (Text 5006 (CONNECTION_ACK (JStr ''B1'') ''En attente de nom'' 5005 1)),
         Send 1 (Text 5007 (BUZZER_CONNECTED (JStr ''B1'') ''En attente de nom'' 5004 1))],
      reads = 8\<rparr>"
  by (simp add: mcq_registered_def mcq_console_def mcq_connected_def setDependencies_def
      onConnection_def initial_server_def isOpen_def routeMessage_def
      handleAngularConnection_def sendBuzzerListToAngular_def
      handleBuzzerRegistration_def setSocket_def
      Map_has_def Map_size_def Map_set_def Date_now_def sendToClient_def
      sendToAngular_def Let_def example_clock_def fun_upd_twist)

lemma mcq_answered_eval:
  "mcq_answered =
     mcq_registered
       \<lparr>gameService :=
          Some \<lparr>activeGames =
                  [(''game_1'',
                    example_game
                      \<lparr>questionIds := [1, 2],
                       players :=
                         [(JStr ''B1'',
                           updatePlayerStats (newPlayer (JStr ''B1'') ''Alice'') 10 True (Num 800)),
                          (JStr ''B2'', newPlayer (JStr ''B2'') ''Bob''),
                          (JStr ''B3'', newPlayer (JStr ''B3'') ''Carol'')],
                       currentQuestionAnswers :=
                         [(JStr ''B1'', \<lparr>a_answer = JNum 0, a_isCorrect = True, a_points = 10,
                                    a_responseTime = Num 800, a_timestamp = 5008\<rparr>)]\<rparr>)],
                onBuzzWinner = True\<rparr>,
        store := example_db\<lparr>game_results :=
          [\<lparr>r_game_id = ''game_1'', r_question_id = 1, r_buzzer_id = JStr ''B1'',
            r_answer = JNum 0, r_is_correct = 1, r_response_time = Num 800,
            r_timestamp_local_action = JUndefined,
            r_timestamp_synced_action = JNum 1800, r_calibrated_latency = JUndefined,
            r_points = 10\<rparr>]\<rparr>,
        outbox := outbox mcq_registered @
          [Send 2 (Text 5009 (ANSWER_RESULT 1 True 10 (Num 800))),
           Send 1 (Text 5010
             (ANSWER_RECEIVED (JStr ''B1'') 1 (JNum 0) True 10 (Num 800) (syncedAt 1800)))],
        reads := 11\<rparr>"
  by (simp add: mcq_answered_def mcq_registered_eval routeMessage_def handleBuzzerMessage_def
      handleMCQAnswer_def recordAnswer_def recordAnswer_game_def getGame_def putGame_def
      mcq_service_def example_game_def example_db_def Map_get_def Map_has_def Map_set_def
      strictEq_def pointsOrDefault_def answerResponseTime_def rawResponseTime_def truthy_def
      syncedAt_def synced_def insertResult_def updatePlayer_def Date_now_def sendToBuzzer_def
      sendToAngular_def sendToClient_def isOpen_def example_clock_def Let_def)

text \<open>
  Claim C4, on a run. B1's first answer is sent on to the console as \<open>ANSWER_RECEIVED\<close>.
  Its second \<open>ANSWER_MCQ\<close> for the same question changes neither the game service nor the
  store (\<open>recordAnswer\<close> returns the duplicate result, see \<open>recordAnswer_duplicate\<close>), but
  \<open>handleMCQAnswer\<close> does not look at \<open>duplicate\<close>: B1 gets an \<open>ANSWER_RESULT\<close> that
  says wrong with 0 points, and the console gets a second \<open>ANSWER_RECEIVED\<close>, against the
  claim.
\<close>

theorem duplicate_answer_forwarded:
  "outbox mcq_answered = outbox mcq_registered @
     [Send 2 (Text 5009 (ANSWER_RESULT 1 True 10 (Num 800))),
      Send 1 (Text 5010
        (ANSWER_RECEIVED (JStr ''B1'') 1 (JNum 0) True 10 (Num 800) (syncedAt 1800)))] \<and>
   gameService mcq_answered_again = gameService mcq_answered \<and>
   store mcq_answered_again = store mcq_answered \<and>
   outbox mcq_answered_again = outbox mcq_answered @
     [Send 2 (Text 5011 (ANSWER_RESULT 1 False 0 (Num 0))),
      Send 1 (Text 5012
        (ANSWER_RECEIVED (JStr ''B1'') 1 (JNum 0) False 0 (Num 0) (syncedAt 2500)))]"
  by (simp add: mcq_answered_again_def mcq_answered_eval mcq_registered_eval routeMessage_def
      handleBuzzerMessage_def
      handleMCQAnswer_def recordAnswer_def recordAnswer_game_def getGame_def putGame_def
      example_game_def Map_get_def Map_has_def Map_set_def
      Date_now_def sendToBuzzer_def
      sendToAngular_def sendToClient_def isOpen_def example_clock_def Let_def)

section \<open>The path check of handleJinglePlay\<close>

lemma splitFrom_append_slash:
  "splitFrom seg (xs @ CHR ''/'' # ys) = splitFrom seg xs @ splitFrom [] ys"
  by (induction xs arbitrary: seg) simp_all

lemma splitPath_append_slash:
  "splitPath (xs @ CHR ''/'' # ys) = splitPath xs @ splitPath ys"
  by (simp add: splitPath_def splitFrom_append_slash)

lemma splitFrom_no_slash: "CHR ''/'' \<notin> set xs \<Longrightarrow> splitFrom seg xs = [seg @ xs]"
  by (induction xs arbitrary: seg) auto

lemma splitPath_joinPath:
  "segs \<noteq> [] \<Longrightarrow> \<forall>x \<in> set segs. CHR ''/'' \<notin> set x \<Longrightarrow> splitPath (joinPath segs) = segs"
proof (induction segs rule: joinPath.induct)
  case 1
  then show ?case by simp
next
  case (2 x)
  then show ?case by (simp add: splitPath_def splitFrom_no_slash)
next
  case (3 x y ys)
  then have "splitPath (joinPath (y # ys)) = y # ys" by simp
  moreover have "splitPath x = [x]" using 3(3) by (simp add: splitPath_def splitFrom_no_slash)
  ultimately show ?case
    using splitPath_append_slash[of x "joinPath (y # ys)"] by simp
qed

lemma splitFrom_segments:
  "CHR ''/'' \<notin> set seg \<Longrightarrow> \<forall>x \<in> set (splitFrom seg xs). CHR ''/'' \<notin> set x"
proof (induction xs arbitrary: seg)
  case Nil
  then show ?case by simp
next
  case (Cons c cs)
  show ?case
  proof (cases "c = CHR ''/''")
    case True
    with Cons.IH[of "[]"] Cons.prems show ?thesis by simp
  next
    case False
    with Cons.IH[of "seg @ [c]"] Cons.prems show ?thesis by simp
  qed
qed

lemma splitPath_segments: "\<forall>x \<in> set (splitPath p). CHR ''/'' \<notin> set x"
  using splitFrom_segments[of "[]" p] by (simp add: splitPath_def)

lemma normalizeStep_members:
  "x \<in> set (normalizeStep b res seg) \<Longrightarrow> x \<in> set res \<or> (x = seg \<and> seg \<noteq> [] \<and> seg \<noteq> ''.'')"
  by (auto simp: normalizeStep_def split: if_splits dest: in_set_butlastD)

lemma foldl_normalizeStep_members:
  "x \<in> set (foldl (normalizeStep b) res segs) \<Longrightarrow>
     x \<in> set res \<or> (x \<in> set segs \<and> x \<noteq> [] \<and> x \<noteq> ''.'')"
proof (induction segs arbitrary: res)
  case Nil
  then show ?case by simp
next
  case (Cons seg segs)
  from Cons.IH[of "normalizeStep b res seg"] Cons.prems
  show ?case using normalizeStep_members[of x b res seg] by auto
qed



lemma normalizeStep_skip:
  "seg = [] \<or> seg = ''.'' \<Longrightarrow> normalizeStep b res seg = res"
  by (auto simp: normalizeStep_def)

lemma normalizeStep_name:
  "seg \<noteq> [] \<Longrightarrow> seg \<noteq> ''.'' \<Longrightarrow> seg \<noteq> ''..'' \<Longrightarrow> normalizeStep b res seg = res @ [seg]"
  by (simp add: normalizeStep_def)

lemma normalizeStep_up_pop:
  "res \<noteq> [] \<Longrightarrow> last res \<noteq> ''..'' \<Longrightarrow> normalizeStep b res ''..'' = butlast res"
  by (simp add: normalizeStep_def)

lemma normalizeStep_up_keep:
  "res = [] \<or> last res = ''..'' \<Longrightarrow> normalizeStep True res ''..'' = res @ [''..'']"
  by (auto simp: normalizeStep_def)

lemma foldl_normalizeStep_relative:
  "foldl (normalizeStep False) res (foldl (normalizeStep True) [] segs) =
   foldl (normalizeStep False) res segs"
proof (induction segs rule: rev_induct)
  case Nil
  then show ?case by simp
next
  case (snoc seg segs)
  let ?N = "foldl (normalizeStep True) [] segs"
  let ?F = "foldl (normalizeStep False) res"
  have mem: "\<And>x. x \<in> set ?N \<Longrightarrow> x \<noteq> [] \<and> x \<noteq> ''.''"
    using foldl_normalizeStep_members[of _ True "[]" segs] by auto
  have goal: "?F (normalizeStep True ?N seg) = normalizeStep False (?F segs) seg"
  proof (cases "seg = [] \<or> seg = ''.''")
    case True
    then show ?thesis using snoc.IH by (simp add: normalizeStep_skip)
  next
    case skip: False
    show ?thesis
    proof (cases "seg = ''..''")
      case False
      with skip have "normalizeStep True ?N seg = ?N @ [seg]"
        by (simp add: normalizeStep_name)
      then show ?thesis using snoc.IH by simp
    next
      case up: True
      show ?thesis
      proof (cases "?N = [] \<or> last ?N = ''..''")
        case True
        then have "normalizeStep True ?N seg = ?N @ [seg]"
          using up normalizeStep_up_keep[of ?N] by simp
        then show ?thesis using snoc.IH by simp
      next
        case False
        then have ne: "?N \<noteq> []" and l: "last ?N \<noteq> ''..''" by simp_all
        have N: "?N = butlast ?N @ [last ?N]" using ne by simp
        have "last ?N \<in> set ?N" using ne by simp
        then have l': "last ?N \<noteq> []" "last ?N \<noteq> ''.''" using mem by blast+
        have "?F ?N = ?F (butlast ?N @ [last ?N])" using N by simp
        also have "\<dots> = normalizeStep False (?F (butlast ?N)) (last ?N)" by simp
        also have "\<dots> = ?F (butlast ?N) @ [last ?N]"
          using l l' by (simp add: normalizeStep_name)
        finally have "?F segs = ?F (butlast ?N) @ [last ?N]" using snoc.IH by simp
        then have "normalizeStep False (?F segs) ''..'' = ?F (butlast ?N)"
          using l by (simp add: normalizeStep_up_pop)
        moreover have "normalizeStep True ?N ''..'' = butlast ?N"
          using ne l by (simp add: normalizeStep_up_pop)
        ultimately show ?thesis using up by simp
      qed
    qed
  qed
  then show ?case by simp
qed


lemma resolve_relative:
  assumes "isAbsolute dir" and "\<not> isAbsolute p"
  shows "resolve dir p =
           ''/'' @ joinPath (foldl (normalizeStep False)
                              (foldl (normalizeStep False) [] (splitPath dir)) (splitPath p))"
proof (cases "p = []")
  case True
  have "splitPath (dir @ ''/'') = splitPath dir @ [[]]"
    using splitPath_append_slash[of dir "[]"] by (simp add: splitPath_def)
  then show ?thesis using True assms
    by (simp add: resolve_def normalizeString_def normalizeStep_skip splitPath_def)
next
  case False
  have "splitPath (dir @ ''/'' @ p @ ''/'') = splitPath dir @ splitPath (p @ ''/'')"
    using splitPath_append_slash[of dir "p @ ''/''"] by simp
  moreover have "splitPath (p @ ''/'') = splitPath p @ [[]]"
    using splitPath_append_slash[of p "[]"] by (simp add: splitPath_def)
  ultimately have "splitPath (dir @ ''/'' @ p @ ''/'') = splitPath dir @ splitPath p @ [[]]"
    by simp
  then show ?thesis using False assms
    by (simp add: resolve_def normalizeString_def normalizeStep_skip)
qed

lemma joinPath_empty: "joinPath segs = [] \<Longrightarrow> \<forall>x \<in> set segs. x \<noteq> [] \<Longrightarrow> segs = []"
  by (induction segs rule: joinPath.induct) auto

lemma hd_joinPath: "x \<noteq> [] \<Longrightarrow> hd (joinPath (x # xs)) = hd x"
  by (cases xs) simp_all

lemma normalize_relative:
  assumes rel: "\<not> isAbsolute p"
  shows "\<not> isAbsolute (normalizePath p) \<and>
         foldl (normalizeStep False) res (splitPath (normalizePath p)) =
         foldl (normalizeStep False) res (foldl (normalizeStep True) [] (splitPath p))"
proof (cases "p = []")
  case True
  then show ?thesis
    by (simp add: normalizePath_def isAbsolute_def splitPath_def normalizeStep_skip)
next
  case False
  let ?N = "foldl (normalizeStep True) [] (splitPath p)"
  have mem: "\<And>x. x \<in> set ?N \<Longrightarrow> x \<noteq> [] \<and> x \<noteq> ''.'' \<and> CHR ''/'' \<notin> set x"
    using foldl_normalizeStep_members[of _ True "[]" "splitPath p"] splitPath_segments[of p]
    by auto
  have notabs: "hd p \<noteq> CHR ''/''" using rel False by (simp add: isAbsolute_def)
  show ?thesis
  proof (cases "joinPath ?N = []")
    case True
    then have "?N = []" using joinPath_empty[of ?N] mem by blast
    then show ?thesis using True False notabs
      by (simp add: normalizePath_def normalizeString_def isAbsolute_def splitPath_def
          normalizeStep_skip Let_def)
  next
    case ne: False
    then obtain x xs where N: "?N = x # xs" by (cases ?N) auto
    then have x: "x \<noteq> []" "CHR ''/'' \<notin> set x" using mem[of x] by simp_all
    have "hd (joinPath ?N) = hd x" using N x hd_joinPath by simp
    then have hdj: "hd (joinPath ?N) \<noteq> CHR ''/''" using x by (cases x) auto
    have sp: "splitPath (joinPath ?N) = ?N"
      using splitPath_joinPath[of ?N] N mem by auto
    have sp': "splitPath (joinPath ?N @ ''/'') = ?N @ [[]]"
      using splitPath_append_slash[of "joinPath ?N" "[]"] sp by (simp add: splitPath_def)
    show ?thesis
    proof (cases "last p = CHR ''/''")
      case True
      then have n: "normalizePath p = joinPath ?N @ ''/''"
        using False ne notabs by (simp add: normalizePath_def normalizeString_def Let_def)
      show ?thesis using n sp' hdj ne
        by (simp add: isAbsolute_def normalizeStep_skip)
    next
      case nt: False
      then have n: "normalizePath p = joinPath ?N"
        using False ne notabs by (simp add: normalizePath_def normalizeString_def Let_def)
      show ?thesis using n sp hdj ne by (simp add: isAbsolute_def)
    qed
  qed
qed

lemma resolve_normalize:
  assumes "isAbsolute dir" and "\<not> isAbsolute p"
  shows "resolve dir (normalizePath p) = resolve dir p"
proof -
  let ?R = "foldl (normalizeStep False) [] (splitPath dir)"
  from normalize_relative[OF assms(2), of ?R]
  have rel: "\<not> isAbsolute (normalizePath p)"
    and eq: "foldl (normalizeStep False) ?R (splitPath (normalizePath p)) =
             foldl (normalizeStep False) ?R (foldl (normalizeStep True) [] (splitPath p))"
    by simp_all
  have "resolve dir (normalizePath p) =
          ''/'' @ joinPath (foldl (normalizeStep False) ?R (splitPath (normalizePath p)))"
    using resolve_relative[OF assms(1) rel] .
  also have "\<dots> = ''/'' @ joinPath (foldl (normalizeStep False) ?R (splitPath p))"
    using eq foldl_normalizeStep_relative[of ?R "splitPath p"] by simp
  also have "\<dots> = resolve dir p"
    using resolve_relative[OF assms] by simp
  finally show ?thesis .
qed

text \<open>
  In a process with an absolute working directory, resolving a relative path and resolving
  its normal form give the same result. So no stored path makes the check of \<open>handleJinglePlay\<close> true: a request is
  never answered with "Invalid file path".
\<close>

lemma path_check_never_rejects:
  assumes "isAbsolute (cwd s)"
  shows "\<not> (\<not> isAbsolute path \<and> resolve (cwd s) path \<noteq> resolve (cwd s) (normalizePath path))"
proof (cases "isAbsolute path")
  case True
  then show ?thesis by simp
next
  case False
  with resolve_normalize[OF assms False] show ?thesis by simp
qed


lemma traversal_paths:
  "\<not> isAbsolute ''../../etc/passwd''"
  "resolve ''/srv/app'' ''../../etc/passwd'' = ''/etc/passwd''"
  "normalizePath ''../../etc/passwd'' = ''../../etc/passwd''"
  "extname ''/etc/passwd'' = []"
  by (simp_all add: isAbsolute_def resolve_def normalizePath_def normalizeString_def splitPath_def
      normalizeStep_def extname_def basenameOf_def Let_def)

lemma jingle_server_fields:
  "activeJingleStreams jingle_server = []"
  "buzzerClients jingle_server = buzzerClients mcq_registered"
  "sockets jingle_server = sockets mcq_registered"
  "angularClient jingle_server = Some 1"
  "dbHandle jingle_server" "cwd jingle_server = ''/srv/app''"
  "streams jingle_server = []" "reads jingle_server = 8"
  "outbox jingle_server = outbox mcq_registered"
  by (simp_all add: jingle_server_def mcq_registered_eval)

text \<open>
  Claim C8, on a run. Jingle 8 is stored with the relative path \<open>../../etc/passwd\<close>, which
  resolves to \<open>/etc/passwd\<close>, outside the working directory and its jingle directory.
  \<open>handleJinglePlay\<close> does not answer \<open>JINGLE_ERROR\<close> "Invalid file path": it looks the
  file up, announces the stream to buzzer and console, and the first \<open>data\<close> event sends
  the bytes of that file to the buzzer, against the claim.
\<close>

theorem path_traversal_not_rejected:
  "\<not> isAbsolute ''../../etc/passwd'' \<and>
   resolve (cwd jingle_server) ''../../etc/passwd'' = ''/etc/passwd'' \<and>
   map_option file_path (jingles (store jingle_server) 8) = Some ''../../etc/passwd'' \<and>
   outbox traversal_started = outbox jingle_server @
     [Send 2 (Text 5008 (JINGLE_START 8 ''Leak'' [] 4)),
      Send 1 (Text 5009 (JINGLE_STARTED (JStr ''B1'') 8 ''Leak'' 4))] \<and>
   streams traversal_started =
     [\<lparr>st_buzzerID = JStr ''B1'', st_jingleId = 8, st_ws = 2, st_fileSize = 4,
       chunks = [passwd_bytes], chunkIndex = 0, destroyed = False, ended = False\<rparr>] \<and>
   map_sum id outbox (streamData traversal_started 0) =
     Inr (outbox traversal_started @
            [Send 2 (Binary ([8, 0, 0, 0, 0, 0, 0, 0] @ passwd_bytes))])"
proof -
  have s: "traversal_started =
     jingle_server\<lparr>reads := 10,
       outbox := outbox jingle_server @
         [Send 2 (Text 5008 (JINGLE_START 8 ''Leak'' [] 4)),
          Send 1 (Text 5009 (JINGLE_STARTED (JStr ''B1'') 8 ''Leak'' 4))],
       activeJingleStreams := [JStr ''B1''],
       streams := [\<lparr>st_buzzerID = JStr ''B1'', st_jingleId = 8, st_ws = 2, st_fileSize = 4,
         chunks = [passwd_bytes], chunkIndex = 0, destroyed = False, ended = False\<rparr>]\<rparr>"
    by (simp add: traversal_started_def handleJinglePlay_def jingle_server_fields
        traversal_paths Set_has_def Set_add_def Map_get_def mcq_registered_eval isOpen_def
        jingle_server_def sendToBuzzer_def sendToAngular_def sendToClient_def Date_now_def
        example_clock_def toLowerCase_def passwd_bytes_def CHUNK_SIZE_def Let_def
        readChunks.simps)
  have d: "map_sum id outbox (streamData traversal_started 0) =
     Inr (outbox traversal_started @
            [Send 2 (Binary ([8, 0, 0, 0, 0, 0, 0, 0] @ passwd_bytes))])"
    by (simp add: s streamData_def isOpen_def jingle_server_def mcq_registered_eval
        writeUInt32LE_def uint32LE_def Let_def)
  have o: "outbox traversal_started = outbox jingle_server @
     [Send 2 (Text 5008 (JINGLE_START 8 ''Leak'' [] 4)),
      Send 1 (Text 5009 (JINGLE_STARTED (JStr ''B1'') 8 ''Leak'' 4))]"
    and t: "streams traversal_started =
     [\<lparr>st_buzzerID = JStr ''B1'', st_jingleId = 8, st_ws = 2, st_fileSize = 4,
       chunks = [passwd_bytes], chunkIndex = 0, destroyed = False, ended = False\<rparr>]"
    by (simp_all add: s)
  have j: "map_option file_path (jingles (store jingle_server) 8) = Some ''../../etc/passwd''"
    by (simp add: jingle_server_def)
  from d o t j traversal_paths(1,2) jingle_server_fields(6) show ?thesis
    by (intro conjI) simp_all
qed

section \<open>Streaming a jingle\<close>




lemma unat_byte: "unat (of_nat (v mod 256) :: 8 word) = v mod 256"
  by (simp add: unat_of_nat)























end
